theory Spec2Isabelle
  imports Complex_Main
begin

chapter \<open>Digital Director: note-level interpretation, validation, conductor and curve points\<close>

text \<open>
  A shallow embedding of the Python modules \<^verbatim>\<open>conductor/voice_analyzer.py\<close>,
  \<^verbatim>\<open>conductor/rule_base.py\<close>, \<^verbatim>\<open>conductor/melody_rules.py\<close>,
  \<^verbatim>\<open>conductor/bass_rules.py\<close>, \<^verbatim>\<open>conductor/inner_voice_rules.py\<close>,
  \<^verbatim>\<open>conductor/note_manipulator.py\<close>, \<^verbatim>\<open>conductor/orchestral_conductor.py\<close> and of
  step 4 of \<^verbatim>\<open>extract_dynamic_points_baroque\<close> in \<^verbatim>\<open>dynamics.py\<close>.

  Conventions. Python integers are \<^typ>\<open>int\<close>. Python floats are \<^typ>\<open>real\<close> numbers.
  In the safety validation pass, which truncates products of floats to tick counts, every
  float operation is rounded to the nearest double; elsewhere a float expression is read
  as the exact real number it denotes.
  Objects mutated in place become values that are passed in and returned. The links
  \<^verbatim>\<open>prev_note\<close> / \<^verbatim>\<open>next_note\<close>, which \<^verbatim>\<open>MusicalVoice.analyze\<close> sets to the
  list neighbours, are index arithmetic on the list of notes of the voice. Exceptions that the
  source catches are explicit branches.
\<close>

section \<open>Python numerics\<close>

text \<open>\<^verbatim>\<open>int(x)\<close> on a float truncates toward zero.\<close>

definition py_int :: "real \<Rightarrow> int" where
  "py_int x = (if 0 \<le> x then \<lfloor>x\<rfloor> else \<lceil>x\<rceil>)"

text \<open>\<^verbatim>\<open>round(x)\<close> rounds to the nearest integer, ties to the even one.\<close>

definition py_round :: "real \<Rightarrow> int" where
  "py_round x =
     (let f = \<lfloor>x\<rfloor>; d = x - of_int f
      in if d < 1 / 2 then f else if 1 / 2 < d then f + 1 else if even f then f else f + 1)"

subsection \<open>Double-precision floats\<close>

text \<open>
  A Python float is an IEEE 754 binary64 number, and an arithmetic operation returns the
  exact result rounded to the nearest such number, ties to the even mantissa.
  \<open>exponent_of x\<close> is the binary exponent of \<open>x\<close>, found by halving or doubling, and never
  below -1022, where the subnormal numbers begin; the doubles around \<open>x\<close> are the multiples
  of \<open>2 powi (exponent_of x - 52)\<close>. A result whose exponent exceeds 1023, that is of
  magnitude \<open>2 ^ 1024\<close> or more, is not a finite double: converting such an integer,
  dividing two integers with such a quotient and truncating such a product raise
  \<^verbatim>\<open>OverflowError\<close>.
\<close>

fun halvings :: "nat \<Rightarrow> real \<Rightarrow> nat" where
  "halvings 0 x = 0"
| "halvings (Suc fuel) x = (if x < 2 then 0 else Suc (halvings fuel (x / 2)))"

fun doublings :: "nat \<Rightarrow> real \<Rightarrow> nat" where
  "doublings 0 x = 0"
| "doublings (Suc fuel) x = (if 1 \<le> x then 0 else Suc (doublings fuel (2 * x)))"

definition exponent_of :: "real \<Rightarrow> int" where
  "exponent_of x =
     (if 1 \<le> \<bar>x\<bar> then int (halvings 1024 \<bar>x\<bar>) else - int (doublings 1022 \<bar>x\<bar>))"

definition double_round :: "real \<Rightarrow> real" where
  "double_round x =
     (let ulp = 2 powi (exponent_of x - 52)
      in real_of_int (py_round (x / ulp)) * ulp)"

definition finite_double :: "real \<Rightarrow> bool" where
  "finite_double x = (exponent_of x \<le> 1023)"

text \<open>\<^verbatim>\<open>float(k)\<close>, the conversion that precedes an operation of an integer with a float.\<close>

definition py_float :: "int \<Rightarrow> real" where
  "py_float k = double_round (real_of_int k)"

section \<open>Notes and voices (\<^verbatim>\<open>voice_analyzer.py\<close>)\<close>

record note_properties =
  pitch :: int
  velocity :: int
  start_time :: int
  duration :: int
  original_start_time :: int
  original_duration :: int
  track :: int
  channel :: int
  adjusted_start_time :: int
  adjusted_duration :: int
  adjusted_velocity :: int
  is_melody :: bool
  is_bass :: bool
  is_inner_voice :: bool
  metric_position :: real
  phrase_position :: real
  harmonic_importance :: real
  is_downbeat :: bool
  interval_to_next :: int
  interval_to_prev :: int

text \<open>\<^verbatim>\<open>NoteProperties.__init__\<close>.\<close>

definition NoteProperties :: "int \<Rightarrow> int \<Rightarrow> int \<Rightarrow> int \<Rightarrow> int \<Rightarrow> int \<Rightarrow> note_properties" where
  "NoteProperties p v s d t c =
     \<lparr> pitch = p, velocity = v, start_time = s, duration = d,
       original_start_time = s, original_duration = d, track = t, channel = c,
       adjusted_start_time = s, adjusted_duration = d, adjusted_velocity = v,
       is_melody = False, is_bass = False, is_inner_voice = False,
       metric_position = 0, phrase_position = 0, harmonic_importance = 0,
       is_downbeat = False, interval_to_next = 0, interval_to_prev = 0 \<rparr>"

text \<open>A phrase is \<^verbatim>\<open>(start_idx, end_idx, type)\<close>.\<close>

type_synonym phrase = "nat \<times> nat \<times> string"

record voice =
  track_index :: int
  voice_channel :: int
  voice_notes :: "note_properties list"
  role :: string
  phrases :: "phrase list"

text \<open>\<^verbatim>\<open>MusicalVoice.__init__\<close>: the role starts as \<^verbatim>\<open>"unknown"\<close>.\<close>

definition MusicalVoice :: "int \<Rightarrow> int \<Rightarrow> voice" where
  "MusicalVoice t c =
     \<lparr> track_index = t, voice_channel = c, voice_notes = [], role = ''unknown'', phrases = [] \<rparr>"

text \<open>The neighbour links of the note at index \<open>i\<close>.\<close>

definition prev_note :: "note_properties list \<Rightarrow> nat \<Rightarrow> note_properties option" where
  "prev_note ns i = (if 0 < i \<and> i < length ns then Some (ns ! (i - 1)) else None)"

definition next_note :: "note_properties list \<Rightarrow> nat \<Rightarrow> note_properties option" where
  "next_note ns i = (if i + 1 < length ns then Some (ns ! (i + 1)) else None)"

subsection \<open>Phrase detection (\<^verbatim>\<open>MusicalVoice._detect_phrases\<close>)\<close>

text \<open>
  The three criteria evaluated at loop index \<open>i\<close> on the notes \<open>prev = sorted_notes[i-1]\<close>
  and \<open>cur = sorted_notes[i]\<close>.
\<close>

definition is_gap :: "int \<Rightarrow> note_properties \<Rightarrow> note_properties \<Rightarrow> bool" where
  "is_gap tpb prev cur =
     (let prev_end = original_start_time prev + original_duration prev;
          current_start = original_start_time cur;
          gap = current_start - prev_end
      in gap > tpb)"

definition is_long_note :: "int \<Rightarrow> note_properties \<Rightarrow> bool" where
  "is_long_note tpb prev = (original_duration prev > tpb * 2)"

definition is_large_interval :: "note_properties \<Rightarrow> note_properties \<Rightarrow> bool" where
  "is_large_interval prev cur = (\<bar>pitch cur - pitch prev\<bar> > 7)"

definition phrase_break :: "int \<Rightarrow> note_properties list \<Rightarrow> nat \<Rightarrow> bool" where
  "phrase_break tpb sorted_notes i =
     (is_gap tpb (sorted_notes ! (i - 1)) (sorted_notes ! i)
      \<or> is_long_note tpb (sorted_notes ! (i - 1))
      \<or> is_large_interval (sorted_notes ! (i - 1)) (sorted_notes ! i))"

text \<open>
  One iteration of the loop \<^verbatim>\<open>for i in range(1, len(sorted_notes))\<close>; the state is
  \<^verbatim>\<open>(current_phrase_start, self.phrases)\<close>.
\<close>

definition detect_step :: "int \<Rightarrow> note_properties list \<Rightarrow> nat \<Rightarrow> nat \<times> phrase list \<Rightarrow> nat \<times> phrase list" where
  "detect_step tpb sorted_notes i st =
     (case st of (current_phrase_start, phs) \<Rightarrow>
        if phrase_break tpb sorted_notes i
        then (i, if i - current_phrase_start > 2
                 then phs @ [(current_phrase_start, i - 1, ''standard'')] else phs)
        else (current_phrase_start, phs))"

definition detect_loop :: "int \<Rightarrow> note_properties list \<Rightarrow> nat \<Rightarrow> phrase list \<Rightarrow> nat \<times> phrase list" where
  "detect_loop tpb sorted_notes n phs = fold (detect_step tpb sorted_notes) [1..<n] (0, phs)"

text \<open>The phrases appended by one call, given the phrases already stored.\<close>

definition detect_phrases_from :: "int \<Rightarrow> note_properties list \<Rightarrow> phrase list \<Rightarrow> phrase list" where
  "detect_phrases_from tpb ns phs =
     (if ns = [] then phs
      else let sorted_notes = sort_key original_start_time ns;
               n = length sorted_notes;
               st = detect_loop tpb sorted_notes n phs;
               current_phrase_start = fst st
           in if n - current_phrase_start > 2
              then snd st @ [(current_phrase_start, n - 1, ''final'')] else snd st)"

definition detect_phrases :: "int \<Rightarrow> voice \<Rightarrow> voice" where
  "detect_phrases tpb v = v\<lparr>phrases := detect_phrases_from tpb (voice_notes v) (phrases v)\<rparr>"

text \<open>
  \<^verbatim>\<open>MusicalVoice._calculate_metric_positions\<close>, the downbeat test: beat 1 or beat 3 of
  a 4/4 measure, within 0.1 beats. Python's \<^verbatim>\<open>%\<close> on integers takes the sign of the
  divisor, as \<open>mod\<close> on \<^typ>\<open>int\<close> does; a zero \<^verbatim>\<open>ticks_per_beat\<close> raises.
\<close>

definition downbeat_at :: "int \<Rightarrow> int \<Rightarrow> bool option" where
  "downbeat_at tpb start =
     (if tpb = 0 then None
      else let ticks_per_measure = 4 * tpb;
               beat_in_measure = real_of_int (start mod ticks_per_measure) / real_of_int tpb
           in Some (beat_in_measure < 0.1 \<or> \<bar>beat_in_measure - 2.0\<bar> < 0.1))"

text \<open>
  The phrase-closing rule in the words of the specification, for comparison: the three
  criteria above, or the current phrase already has at least 4 notes and the note lands
  on a downbeat.
\<close>

definition spec_phrase_break :: "int \<Rightarrow> note_properties list \<Rightarrow> nat \<Rightarrow> nat \<Rightarrow> bool" where
  "spec_phrase_break tpb sorted_notes current_phrase_start i =
     (phrase_break tpb sorted_notes i
      \<or> (i - current_phrase_start \<ge> 4
          \<and> downbeat_at tpb (original_start_time (sorted_notes ! i)) = Some True))"

definition spec_detect_step :: "int \<Rightarrow> note_properties list \<Rightarrow> nat \<Rightarrow> nat \<times> phrase list \<Rightarrow> nat \<times> phrase list" where
  "spec_detect_step tpb sorted_notes i st =
     (case st of (current_phrase_start, phs) \<Rightarrow>
        if spec_phrase_break tpb sorted_notes current_phrase_start i
        then (i, if i - current_phrase_start > 2
                 then phs @ [(current_phrase_start, i - 1, ''standard'')] else phs)
        else (current_phrase_start, phs))"

definition spec_detect_phrases_from :: "int \<Rightarrow> note_properties list \<Rightarrow> phrase list \<Rightarrow> phrase list" where
  "spec_detect_phrases_from tpb ns phs =
     (if ns = [] then phs
      else let sorted_notes = sort_key original_start_time ns;
               n = length sorted_notes;
               st = fold (spec_detect_step tpb sorted_notes) [1..<n] (0, phs);
               current_phrase_start = fst st
           in if n - current_phrase_start > 2
              then snd st @ [(current_phrase_start, n - 1, ''final'')] else snd st)"

text \<open>Five consecutive quarter notes on one pitch, starting at tick 0.\<close>

definition five_quarters :: "note_properties list" where
  "five_quarters = map (\<lambda>k. NoteProperties 60 80 (480 * k) 480 0 0) [0, 1, 2, 3, 4]"

section \<open>Rule base (\<^verbatim>\<open>rule_base.py\<close>)\<close>

record interpretation_context =
  ticks_per_beat :: int
  expressiveness :: real
  rubato_strength :: real
  articulation_strength :: real
  dynamics_strength :: real
  timing_direction_bias :: real
  max_timing_change :: int
  max_velocity_change :: int
  max_acceleration :: int
  max_delay :: int

text \<open>\<^verbatim>\<open>InterpretationContext.__init__\<close>.\<close>

definition InterpretationContext ::
  "int \<Rightarrow> real \<Rightarrow> real \<Rightarrow> real \<Rightarrow> real \<Rightarrow> real \<Rightarrow> interpretation_context" where
  "InterpretationContext tpb expr rubato artic dyn bias =
     (let acc0 = py_int (real_of_int tpb * 0.1 * rubato * (- 1));
          del0 = py_int (real_of_int tpb * 0.1 * rubato);
          acc = (if bias \<noteq> 0 \<and> bias > 0 then py_int (real_of_int acc0 * (1.0 - bias)) else acc0);
          del = (if bias \<noteq> 0 \<and> bias < 0 then py_int (real_of_int del0 * (1.0 + bias)) else del0)
      in \<lparr> ticks_per_beat = tpb, expressiveness = expr, rubato_strength = rubato,
           articulation_strength = artic, dynamics_strength = dyn,
           timing_direction_bias = bias,
           max_timing_change = py_int (real_of_int tpb * 0.1 * rubato),
           max_velocity_change = py_int (dyn * 15),
           max_acceleration = acc, max_delay = del \<rparr>)"

text \<open>\<^verbatim>\<open>InterpretationContext.get_timing_adjustment\<close>.\<close>

definition get_timing_adjustment :: "interpretation_context \<Rightarrow> real \<Rightarrow> int" where
  "get_timing_adjustment c factor =
     (if factor < 0 then py_int (real_of_int (max_acceleration c) * (factor / (- 1.0)))
      else py_int (real_of_int (max_delay c) * factor))"

text \<open>
  The rule classes. A rule object carries its name, its enabled flag and its parameter
  dictionary; every key a rule reads is present in its \<^verbatim>\<open>default_params\<close>, so
  \<^verbatim>\<open>get_param\<close> is a total lookup. Fractional parameters are read through \<open>params\<close>,
  integer-valued ones through \<open>iparams\<close>. Two classes keep state between calls:
  \<^verbatim>\<open>SequenceAccelerationRule\<close> (\<open>current_sequence\<close>, \<open>sequence_positions\<close>) and
  \<^verbatim>\<open>BassRepeatedNotesRule\<close> (\<open>current_repetitions\<close>).
\<close>

datatype rule_class =
    PhraseStartRule | PhraseEndRule | PreLeapRule | LocalPeakRule | DownbeatRule
  | ShortNoteRule | LongNoteRule | AccelerandoRule | SequenceAccelerationRule | DirectionalRule
  | BassDownbeatRule | BassShortNoteRule | BassRepeatedNotesRule | BassPhraseEndRule
  | InnerVoiceBaseVelocityRule | InnerContourRule | InnerConsonantRule
  | InnerFlowTimingRule | InnerShortNoteRule

record interpretation_rule =
  rule_class :: rule_class
  name :: string
  enabled :: bool
  params :: "string \<Rightarrow> real"
  iparams :: "string \<Rightarrow> int"
  consonant_intervals :: "int list"
  current_sequence :: "int list"
  sequence_positions :: "int \<times> int \<times> int \<times> int \<rightharpoonup> nat"
  current_repetitions :: "int \<times> int \<times> int \<rightharpoonup> int"

text \<open>What a call of \<^verbatim>\<open>rule.apply\<close> gives its caller.\<close>

datatype outcome = Applied | NotApplied | Raised

text \<open>In-place update of the note object at index \<open>i\<close>.\<close>

definition update_note :: "note_properties list \<Rightarrow> nat \<Rightarrow> (note_properties \<Rightarrow> note_properties) \<Rightarrow> note_properties list" where
  "update_note ns i f = (if i < length ns then ns[i := f (ns ! i)] else ns)"

section \<open>Melody rules (\<^verbatim>\<open>melody_rules.py\<close>)\<close>

definition PhraseStartRule_apply ::
  "interpretation_rule \<Rightarrow> note_properties list \<Rightarrow> nat \<Rightarrow> interpretation_context \<Rightarrow> note_properties list \<times> outcome" where
  "PhraseStartRule_apply r ns i c =
     (let threshold = params r ''phrase_position_threshold''
      in if phrase_position (ns ! i) < threshold then
           (let delay_factor = params r ''first_note_timing_factor'';
                velocity_factor = params r ''velocity_increase_factor'';
                min_duration = iparams r ''min_duration'';
                delay = py_int (real_of_int (max_timing_change c) * delay_factor)
            in (update_note ns i (\<lambda>n. n
                  \<lparr> adjusted_start_time := adjusted_start_time n + delay,
                    adjusted_duration := max min_duration (adjusted_duration n - delay),
                    adjusted_velocity := min 127 (py_int (real_of_int (velocity n) * (1 + velocity_factor))) \<rparr>),
                Applied))
         else if phrase_position (ns ! i) < threshold * 2 \<and> prev_note ns i \<noteq> None then
           (let accel_factor = params r ''second_note_timing_factor'';
                accel = py_int (real_of_int (max_timing_change c) * accel_factor)
            in (update_note ns i (\<lambda>n. n
                  \<lparr> adjusted_start_time := adjusted_start_time n + accel,
                    adjusted_velocity := min 127 (py_int (real_of_int (adjusted_velocity n) * 1.03)) \<rparr>),
                Applied))
         else (ns, NotApplied))"

definition PhraseEndRule_apply ::
  "interpretation_rule \<Rightarrow> note_properties list \<Rightarrow> nat \<Rightarrow> interpretation_context \<Rightarrow> note_properties list \<times> outcome" where
  "PhraseEndRule_apply r ns i c =
     (if phrase_position (ns ! i) > 0.9 then
        (let delay_factor = params r ''timing_delay_factor'';
             velocity_factor = params r ''velocity_decrease_factor'';
             length_factor = params r ''length_increase_factor'';
             length_threshold = iparams r ''length_increase_threshold'';
             delay = py_int (real_of_int (max_timing_change c) * delay_factor);
             length_increase = 1 + length_factor * articulation_strength c
         in (update_note ns i (\<lambda>n. n
               \<lparr> adjusted_start_time := adjusted_start_time n + delay,
                 adjusted_duration :=
                   (if original_duration n > length_threshold
                    then py_int (real_of_int (adjusted_duration n) * length_increase)
                    else adjusted_duration n),
                 adjusted_velocity :=
                   max 1 (py_int (real_of_int (velocity n) * (1 - velocity_factor * dynamics_strength c))) \<rparr>),
             Applied))
      else (ns, NotApplied))"

text \<open>
  \<^verbatim>\<open>PreLeapRule\<close> also writes to the next note object:
  \<^verbatim>\<open>note.next_note.adjusted_velocity\<close>.
\<close>

definition PreLeapRule_apply ::
  "interpretation_rule \<Rightarrow> note_properties list \<Rightarrow> nat \<Rightarrow> interpretation_context \<Rightarrow> note_properties list \<times> outcome" where
  "PreLeapRule_apply r ns i c =
     (let interval = interval_to_next (ns ! i);
          threshold = iparams r ''interval_threshold''
      in if \<bar>interval\<bar> > threshold \<and> next_note ns i \<noteq> None then
           (let reduction_factor = params r ''reduction_factor'';
                min_duration = iparams r ''min_duration'';
                timing_factor = (if interval > 0 then params r ''up_acceleration_factor''
                                 else params r ''down_delay_factor'');
                timing_change = py_int (real_of_int (max_timing_change c) * timing_factor);
                factor = 1.0 - (reduction_factor * articulation_strength c);
                ns1 = update_note ns i (\<lambda>n. n
                  \<lparr> adjusted_start_time := adjusted_start_time n + timing_change,
                    adjusted_duration :=
                      max min_duration (py_int (real_of_int (adjusted_duration n) * factor)) \<rparr>)
            in (update_note ns1 (i + 1) (\<lambda>m. m
                  \<lparr> adjusted_velocity :=
                      min 127 (py_int (real_of_int (velocity m) * (1 + 0.12 * dynamics_strength c))) \<rparr>),
                Applied))
         else (ns, NotApplied))"

definition LocalPeakRule_apply ::
  "interpretation_rule \<Rightarrow> note_properties list \<Rightarrow> nat \<Rightarrow> interpretation_context \<Rightarrow> note_properties list \<times> outcome" where
  "LocalPeakRule_apply r ns i c =
     (case (prev_note ns i, next_note ns i) of
        (Some p, Some q) \<Rightarrow>
          if pitch (ns ! i) > pitch p \<and> pitch (ns ! i) > pitch q then
            (let delay_factor = params r ''timing_delay_factor'';
                 velocity_factor = params r ''velocity_increase_factor'';
                 delay = py_int (real_of_int (max_timing_change c) * delay_factor)
             in (update_note ns i (\<lambda>n. n
                   \<lparr> adjusted_start_time := adjusted_start_time n + delay,
                     adjusted_velocity :=
                       min 127 (py_int (real_of_int (velocity n) * (1 + velocity_factor * dynamics_strength c))) \<rparr>),
                 Applied))
          else (ns, NotApplied)
      | _ \<Rightarrow> (ns, NotApplied))"

definition DownbeatRule_apply ::
  "interpretation_rule \<Rightarrow> note_properties list \<Rightarrow> nat \<Rightarrow> interpretation_context \<Rightarrow> note_properties list \<times> outcome" where
  "DownbeatRule_apply r ns i c =
     (if is_downbeat (ns ! i) then
        (let delay_factor = params r ''timing_delay_factor'';
             velocity_factor = params r ''velocity_increase_factor'';
             delay = py_int (real_of_int (max_timing_change c) * delay_factor)
         in (update_note ns i (\<lambda>n. n
               \<lparr> adjusted_start_time := adjusted_start_time n + delay,
                 adjusted_velocity :=
                   min 127 (py_int (real_of_int (velocity n) * (1 + velocity_factor * dynamics_strength c))) \<rparr>),
             Applied))
      else (ns, NotApplied))"

text \<open>
  \<^verbatim>\<open>ShortNoteRule.apply\<close>. The first statement divides by \<^verbatim>\<open>context.ticks_per_beat\<close>;
  with a zero divisor it raises before anything is written.
\<close>

definition ShortNoteRule_apply ::
  "interpretation_rule \<Rightarrow> note_properties list \<Rightarrow> nat \<Rightarrow> interpretation_context \<Rightarrow> note_properties list \<times> outcome" where
  "ShortNoteRule_apply r ns i c =
     (if ticks_per_beat c = 0 then (ns, Raised)
      else
        let relative_duration = real_of_int (original_duration (ns ! i)) / real_of_int (ticks_per_beat c)
        in if relative_duration < 0.25 then
             (let very_short_reduction = params r ''very_short_reduction'';
                  short_reduction = params r ''short_reduction'';
                  velocity_increase = params r ''velocity_increase'';
                  very_short_threshold = params r ''very_short_threshold'';
                  short_threshold = params r ''short_threshold'';
                  reduction_factor =
                    (if relative_duration \<le> very_short_threshold
                       then 1.0 - (very_short_reduction * articulation_strength c)
                     else if relative_duration \<le> short_threshold
                       then 1.0 - (short_reduction * articulation_strength c)
                     else 1.0 - ((short_reduction * 0.75) * articulation_strength c));
                  min_duration = max 2 (py_int (real_of_int (ticks_per_beat c) * relative_duration * 0.5))
              in (update_note ns i (\<lambda>n. n
                    \<lparr> adjusted_duration :=
                        max min_duration (py_int (real_of_int (adjusted_duration n) * reduction_factor)),
                      adjusted_velocity :=
                        min 127 (py_int (real_of_int (velocity n) * (1 + velocity_increase * dynamics_strength c))) \<rparr>),
                  Applied))
           else (ns, NotApplied))"

definition LongNoteRule_apply ::
  "interpretation_rule \<Rightarrow> note_properties list \<Rightarrow> nat \<Rightarrow> interpretation_context \<Rightarrow> note_properties list \<times> outcome" where
  "LongNoteRule_apply r ns i c =
     (let threshold_ticks = py_int (real_of_int (ticks_per_beat c) * params r ''threshold'')
      in if original_duration (ns ! i) > threshold_ticks then
           (let velocity_increase = params r ''velocity_increase''
            in (update_note ns i (\<lambda>n. n
                  \<lparr> adjusted_velocity :=
                      min 127 (py_int (real_of_int (velocity n) * (1 + velocity_increase * dynamics_strength c))) \<rparr>),
                Applied))
         else (ns, NotApplied))"

definition AccelerandoRule_apply ::
  "interpretation_rule \<Rightarrow> note_properties list \<Rightarrow> nat \<Rightarrow> interpretation_context \<Rightarrow> note_properties list \<times> outcome" where
  "AccelerandoRule_apply r ns i c =
     (case (prev_note ns i, next_note ns i) of
        (Some p, Some q) \<Rightarrow>
          (let is_ascending = (pitch (ns ! i) > pitch p \<and> pitch q > pitch (ns ! i));
               interval_threshold = iparams r ''interval_threshold'';
               interval_size = (pitch (ns ! i) - pitch p) + (pitch q - pitch (ns ! i))
           in if is_ascending \<and> interval_size \<ge> interval_threshold then
                (let accel_factor = params r ''timing_acceleration_factor'';
                     timing_change = py_int (real_of_int (max_timing_change c) * accel_factor);
                     dynamic_boost = 0.05 * dynamics_strength c
                 in (update_note ns i (\<lambda>n. n
                       \<lparr> adjusted_start_time := adjusted_start_time n + timing_change,
                         adjusted_velocity :=
                           min 127 (py_int (real_of_int (adjusted_velocity n) * (1 + dynamic_boost))) \<rparr>),
                     Applied))
              else (ns, NotApplied))
      | _ \<Rightarrow> (ns, NotApplied))"

text \<open>
  \<^verbatim>\<open>SequenceAccelerationRule\<close>: the loop that counts how many trailing intervals are
  equal. \<^verbatim>\<open>len(set(seq[-i:])) == 1\<close> is \<open>length (remdups (drop (length seq - i) seq)) = 1\<close>;
  the flag records the \<^verbatim>\<open>break\<close>.
\<close>

definition count_equal_intervals :: "int list \<Rightarrow> nat" where
  "count_equal_intervals seq =
     fst (fold (\<lambda>i (sequence_position, running).
                  if running \<and> length (remdups (drop (length seq - i) seq)) = 1
                  then (i - 1, True) else (sequence_position, False))
               [3..<length seq + 1] (0, True))"

type_synonym rule_result = "interpretation_rule \<times> note_properties list \<times> outcome"

definition SequenceAccelerationRule_apply ::
  "interpretation_rule \<Rightarrow> note_properties list \<Rightarrow> nat \<Rightarrow> interpretation_context \<Rightarrow> rule_result" where
  "SequenceAccelerationRule_apply r ns i c =
     (if prev_note ns i = None then (r, ns, NotApplied)
      else
        let note_id = (track (ns ! i), channel (ns ! i), original_start_time (ns ! i), pitch (ns ! i));
            appended = current_sequence r @ [interval_to_prev (ns ! i)];
            window = iparams r ''pattern_detection_window'';
            seq = (if int (length appended) > window then tl appended else appended);
            sequence_detected = (length seq \<ge> 3 \<and> seq ! (length seq - 1) = seq ! (length seq - 2));
            sequence_position = (if sequence_detected then count_equal_intervals seq else 0)
        in if sequence_detected then
             (let accel_factor0 = params r ''acceleration_factor'' * (1 + real sequence_position * 0.1);
                  accel_factor = max accel_factor0 (params r ''max_acceleration'');
                  timing_change = py_int (real_of_int (max_timing_change c) * accel_factor);
                  dynamic_increase = params r ''dynamic_increase'' * real sequence_position
              in (r\<lparr> current_sequence := seq,
                     sequence_positions := (sequence_positions r)(note_id \<mapsto> sequence_position) \<rparr>,
                  update_note ns i (\<lambda>n. n
                    \<lparr> adjusted_start_time := adjusted_start_time n + timing_change,
                      adjusted_velocity :=
                        min 127 (py_int (real_of_int (adjusted_velocity n) * (1 + dynamic_increase))) \<rparr>),
                  Applied))
           else (r\<lparr> current_sequence := seq \<rparr>, ns, NotApplied))"

definition DirectionalRule_apply ::
  "interpretation_rule \<Rightarrow> note_properties list \<Rightarrow> nat \<Rightarrow> interpretation_context \<Rightarrow> note_properties list \<times> outcome" where
  "DirectionalRule_apply r ns i c =
     (let interval = interval_to_prev (ns ! i);
          interval_threshold = iparams r ''interval_threshold''
      in if \<bar>interval\<bar> < interval_threshold then (ns, NotApplied)
         else
           let timing_factor = (if interval > 0 then params r ''up_acceleration_factor''
                                else params r ''down_delay_factor'');
               velocity_adjustment = (if interval > 0 then params r ''velocity_adjustment''
                                      else - params r ''velocity_adjustment'');
               strength_multiplier = min 1.5 (real_of_int \<bar>interval\<bar> / 7);
               adjusted_factor = timing_factor * strength_multiplier;
               timing_change = get_timing_adjustment c adjusted_factor;
               dynamic_change = velocity_adjustment * strength_multiplier * dynamics_strength c
           in (update_note ns i (\<lambda>n. n
                 \<lparr> adjusted_start_time := adjusted_start_time n + timing_change,
                   adjusted_velocity :=
                     min 127 (max 1 (py_int (real_of_int (adjusted_velocity n) * (1 + dynamic_change)))) \<rparr>),
               Applied))"

section \<open>Bass rules (\<^verbatim>\<open>bass_rules.py\<close>)\<close>

definition BassDownbeatRule_apply ::
  "interpretation_rule \<Rightarrow> note_properties list \<Rightarrow> nat \<Rightarrow> interpretation_context \<Rightarrow> note_properties list \<times> outcome" where
  "BassDownbeatRule_apply r ns i c =
     (if is_downbeat (ns ! i) then
        (let delay_factor = params r ''timing_delay_factor'';
             velocity_factor = params r ''velocity_increase_factor'';
             delay = py_int (real_of_int (max_timing_change c) * delay_factor)
         in (update_note ns i (\<lambda>n. n
               \<lparr> adjusted_start_time := adjusted_start_time n + delay,
                 adjusted_velocity :=
                   min 127 (py_int (real_of_int (velocity n) * (1 + velocity_factor * dynamics_strength c))) \<rparr>),
             Applied))
      else (ns, NotApplied))"

definition BassShortNoteRule_apply ::
  "interpretation_rule \<Rightarrow> note_properties list \<Rightarrow> nat \<Rightarrow> interpretation_context \<Rightarrow> note_properties list \<times> outcome" where
  "BassShortNoteRule_apply r ns i c =
     (if real_of_int (original_duration (ns ! i)) < real_of_int (ticks_per_beat c) / 2 then
        (let very_short_reduction = params r ''very_short_reduction'';
             short_reduction = params r ''short_reduction'';
             min_duration_factor = params r ''min_duration_factor'';
             min_duration_absolute = iparams r ''min_duration_absolute'';
             min_duration = max min_duration_absolute
                              (py_int (real_of_int (original_duration (ns ! i)) * min_duration_factor));
             reduction_factor =
               (if real_of_int (original_duration (ns ! i)) < real_of_int (ticks_per_beat c) / 4
                then 1.0 - (very_short_reduction * articulation_strength c)
                else 1.0 - (short_reduction * articulation_strength c))
         in (update_note ns i (\<lambda>n. n
               \<lparr> adjusted_duration :=
                   max min_duration (py_int (real_of_int (adjusted_duration n) * reduction_factor)) \<rparr>),
             Applied))
      else (ns, NotApplied))"

text \<open>
  \<^verbatim>\<open>random.uniform(a, b)\<close> is \<^verbatim>\<open>a + (b - a) * random()\<close>. The generator is a stream
  \<open>rng\<close> of samples from \<open>[0, 1)\<close> and a read position that each draw advances.
\<close>

definition uniform :: "real \<Rightarrow> real \<Rightarrow> real \<Rightarrow> real" where
  "uniform a b u = a + (b - a) * u"

type_synonym random_result = "interpretation_rule \<times> note_properties list \<times> nat \<times> outcome"

definition BassRepeatedNotesRule_apply ::
  "interpretation_rule \<Rightarrow> note_properties list \<Rightarrow> nat \<Rightarrow> interpretation_context
     \<Rightarrow> (nat \<Rightarrow> real) \<Rightarrow> nat \<Rightarrow> random_result" where
  "BassRepeatedNotesRule_apply r ns i c rng pos =
     (let repetition_key = (track (ns ! i), channel (ns ! i), pitch (ns ! i))
      in case prev_note ns i of
           None \<Rightarrow> (r\<lparr> current_repetitions := (current_repetitions r)(repetition_key := None) \<rparr>,
                    ns, pos, NotApplied)
         | Some p \<Rightarrow>
             if pitch (ns ! i) = pitch p then
               (let velocity_variation = params r ''velocity_variation'';
                    duration_variation = params r ''duration_variation'';
                    min_duration_factor = params r ''min_duration_factor'';
                    min_duration_absolute = iparams r ''min_duration_absolute'';
                    repetition_count =
                      (case current_repetitions r repetition_key of None \<Rightarrow> 1 | Some k \<Rightarrow> k + 1);
                    min_duration = max min_duration_absolute
                                     (py_int (real_of_int (original_duration (ns ! i)) * min_duration_factor));
                    random_vel_factor =
                      uniform (- velocity_variation) velocity_variation (rng pos) * dynamics_strength c;
                    ns1 = update_note ns i (\<lambda>n. n
                      \<lparr> adjusted_velocity :=
                          min 127 (max 1 (py_int (real_of_int (velocity n) * (1 + random_vel_factor)))) \<rparr>);
                    repetition_threshold = iparams r ''repetition_threshold'';
                    ns2 =
                      (if repetition_count \<ge> repetition_threshold then
                         (let accel_base = params r ''acceleration_factor'';
                              repetition_factor =
                                min 1.0 (real_of_int (repetition_count - repetition_threshold + 1) * 0.2);
                              acceleration0 = accel_base * repetition_factor * rubato_strength c;
                              acceleration = max acceleration0 (params r ''max_acceleration'');
                              time_change = py_int (real_of_int (max_timing_change c) * acceleration);
                              ns1a = update_note ns1 i (\<lambda>n. n
                                \<lparr> adjusted_start_time := adjusted_start_time n + time_change \<rparr>)
                          in if repetition_count > repetition_threshold + 1 then
                               (let dynamic_boost =
                                      min 0.15 (0.03 * real_of_int (repetition_count - repetition_threshold))
                                in update_note ns1a i (\<lambda>n. n
                                     \<lparr> adjusted_velocity :=
                                         min 127 (py_int (real_of_int (adjusted_velocity n) * (1 + dynamic_boost))) \<rparr>))
                             else ns1a)
                       else ns1);
                    varies = (real_of_int (original_duration (ns ! i)) > real_of_int (ticks_per_beat c) / 4);
                    random_dur_factor =
                      uniform (- duration_variation) duration_variation (rng (pos + 1)) * articulation_strength c;
                    variation_factor = 1.0 + random_dur_factor;
                    ns3 =
                      (if varies then update_note ns2 i (\<lambda>n. n
                         \<lparr> adjusted_duration :=
                             max min_duration (py_int (real_of_int (adjusted_duration n) * variation_factor)) \<rparr>)
                       else ns2)
                in (r\<lparr> current_repetitions := (current_repetitions r)(repetition_key \<mapsto> repetition_count) \<rparr>,
                    ns3, (if varies then pos + 2 else pos + 1), Applied))
             else (r\<lparr> current_repetitions := (current_repetitions r)(repetition_key := None) \<rparr>,
                   ns, pos, NotApplied))"

definition BassPhraseEndRule_apply ::
  "interpretation_rule \<Rightarrow> note_properties list \<Rightarrow> nat \<Rightarrow> interpretation_context \<Rightarrow> note_properties list \<times> outcome" where
  "BassPhraseEndRule_apply r ns i c =
     (if phrase_position (ns ! i) > 0.9 then
        (let length_increase_factor = params r ''length_increase_factor'';
             min_duration_threshold = params r ''min_duration_threshold'';
             min_duration_ticks = py_int (real_of_int (ticks_per_beat c) * min_duration_threshold)
         in if original_duration (ns ! i) > min_duration_ticks then
              (update_note ns i (\<lambda>n. n
                 \<lparr> adjusted_duration :=
                     py_int (real_of_int (adjusted_duration n)
                             * (1 + length_increase_factor * articulation_strength c)) \<rparr>),
               Applied)
            else (ns, NotApplied))
      else (ns, NotApplied))"

section \<open>Inner-voice rules (\<^verbatim>\<open>inner_voice_rules.py\<close>)\<close>

definition InnerVoiceBaseVelocityRule_apply ::
  "interpretation_rule \<Rightarrow> note_properties list \<Rightarrow> nat \<Rightarrow> interpretation_context \<Rightarrow> note_properties list \<times> outcome" where
  "InnerVoiceBaseVelocityRule_apply r ns i c =
     (let velocity_factor = params r ''velocity_decrease_factor''
      in (update_note ns i (\<lambda>n. n
            \<lparr> adjusted_velocity :=
                max 1 (py_int (real_of_int (velocity n) * (1 - velocity_factor * dynamics_strength c))) \<rparr>),
          Applied))"

definition InnerContourRule_apply ::
  "interpretation_rule \<Rightarrow> note_properties list \<Rightarrow> nat \<Rightarrow> interpretation_context \<Rightarrow> note_properties list \<times> outcome" where
  "InnerContourRule_apply r ns i c =
     (case (prev_note ns i, next_note ns i) of
        (Some p, Some q) \<Rightarrow>
          (let is_peak = (pitch (ns ! i) > pitch p \<and> pitch (ns ! i) > pitch q);
               is_valley = (pitch (ns ! i) < pitch p \<and> pitch (ns ! i) < pitch q)
           in if is_peak \<or> is_valley then
                (let velocity_factor = params r ''velocity_increase_factor''
                 in (update_note ns i (\<lambda>n. n
                       \<lparr> adjusted_velocity :=
                           min 127 (py_int (real_of_int (adjusted_velocity n)
                                            * (1 + velocity_factor * dynamics_strength c))) \<rparr>),
                     Applied))
              else (ns, NotApplied))
      | _ \<Rightarrow> (ns, NotApplied))"

definition InnerConsonantRule_apply ::
  "interpretation_rule \<Rightarrow> note_properties list \<Rightarrow> nat \<Rightarrow> interpretation_context \<Rightarrow> note_properties list \<times> outcome" where
  "InnerConsonantRule_apply r ns i c =
     (case prev_note ns i of
        None \<Rightarrow> (ns, NotApplied)
      | Some p \<Rightarrow>
          (let interval = \<bar>pitch (ns ! i) - pitch p\<bar> mod 12
           in if interval \<in> set (consonant_intervals r) then
                (let length_factor = params r ''length_increase_factor''
                 in (update_note ns i (\<lambda>n. n
                       \<lparr> adjusted_duration :=
                           py_int (real_of_int (adjusted_duration n)
                                   * (1 + length_factor * articulation_strength c)) \<rparr>),
                     Applied))
              else (ns, NotApplied)))"

definition InnerFlowTimingRule_apply ::
  "interpretation_rule \<Rightarrow> note_properties list \<Rightarrow> nat \<Rightarrow> interpretation_context
     \<Rightarrow> (nat \<Rightarrow> real) \<Rightarrow> nat \<Rightarrow> note_properties list \<times> nat \<times> outcome" where
  "InnerFlowTimingRule_apply r ns i c rng pos =
     (let variation_factor = params r ''max_variation_factor'';
          max_effect = py_int (real_of_int (max_timing_change c) * variation_factor);
          timing_variation =
            py_int (uniform (- real_of_int max_effect) (real_of_int max_effect) (rng pos))
      in (update_note ns i (\<lambda>n. n \<lparr> adjusted_start_time := adjusted_start_time n + timing_variation \<rparr>),
          pos + 1,
          if \<bar>timing_variation\<bar> > 0 then Applied else NotApplied))"

definition InnerShortNoteRule_apply ::
  "interpretation_rule \<Rightarrow> note_properties list \<Rightarrow> nat \<Rightarrow> interpretation_context \<Rightarrow> note_properties list \<times> outcome" where
  "InnerShortNoteRule_apply r ns i c =
     (if real_of_int (original_duration (ns ! i)) < real_of_int (ticks_per_beat c) / 4 then
        (let very_short_reduction = params r ''very_short_reduction'';
             short_reduction = params r ''short_reduction'';
             min_duration_factor = params r ''min_duration_factor'';
             min_duration = iparams r ''min_duration'';
             calculated_min = max min_duration
                                (py_int (real_of_int (original_duration (ns ! i)) * min_duration_factor));
             reduction_factor =
               (if real_of_int (original_duration (ns ! i)) < real_of_int (ticks_per_beat c) / 8
                then 1.0 - (very_short_reduction * articulation_strength c)
                else 1.0 - (short_reduction * articulation_strength c))
         in (update_note ns i (\<lambda>n. n
               \<lparr> adjusted_duration :=
                   max calculated_min (py_int (real_of_int (adjusted_duration n) * reduction_factor)) \<rparr>),
             Applied))
      else (ns, NotApplied))"

section \<open>Rule objects and the rule manager\<close>

text \<open>Dynamic dispatch of \<^verbatim>\<open>rule.apply(note, voice, context)\<close> on the rule's class.\<close>

definition stateless :: "interpretation_rule \<Rightarrow> nat \<Rightarrow> note_properties list \<times> outcome \<Rightarrow> random_result" where
  "stateless r pos res = (r, fst res, pos, snd res)"

definition rule_apply ::
  "interpretation_rule \<Rightarrow> note_properties list \<Rightarrow> nat \<Rightarrow> interpretation_context
     \<Rightarrow> (nat \<Rightarrow> real) \<Rightarrow> nat \<Rightarrow> random_result" where
  "rule_apply r ns i c rng pos =
     (case rule_class r of
        PhraseStartRule \<Rightarrow> stateless r pos (PhraseStartRule_apply r ns i c)
      | PhraseEndRule \<Rightarrow> stateless r pos (PhraseEndRule_apply r ns i c)
      | PreLeapRule \<Rightarrow> stateless r pos (PreLeapRule_apply r ns i c)
      | LocalPeakRule \<Rightarrow> stateless r pos (LocalPeakRule_apply r ns i c)
      | DownbeatRule \<Rightarrow> stateless r pos (DownbeatRule_apply r ns i c)
      | ShortNoteRule \<Rightarrow> stateless r pos (ShortNoteRule_apply r ns i c)
      | LongNoteRule \<Rightarrow> stateless r pos (LongNoteRule_apply r ns i c)
      | AccelerandoRule \<Rightarrow> stateless r pos (AccelerandoRule_apply r ns i c)
      | SequenceAccelerationRule \<Rightarrow>
          (case SequenceAccelerationRule_apply r ns i c of (r', ns', out) \<Rightarrow> (r', ns', pos, out))
      | DirectionalRule \<Rightarrow> stateless r pos (DirectionalRule_apply r ns i c)
      | BassDownbeatRule \<Rightarrow> stateless r pos (BassDownbeatRule_apply r ns i c)
      | BassShortNoteRule \<Rightarrow> stateless r pos (BassShortNoteRule_apply r ns i c)
      | BassRepeatedNotesRule \<Rightarrow> BassRepeatedNotesRule_apply r ns i c rng pos
      | BassPhraseEndRule \<Rightarrow> stateless r pos (BassPhraseEndRule_apply r ns i c)
      | InnerVoiceBaseVelocityRule \<Rightarrow> stateless r pos (InnerVoiceBaseVelocityRule_apply r ns i c)
      | InnerContourRule \<Rightarrow> stateless r pos (InnerContourRule_apply r ns i c)
      | InnerConsonantRule \<Rightarrow> stateless r pos (InnerConsonantRule_apply r ns i c)
      | InnerFlowTimingRule \<Rightarrow>
          (case InnerFlowTimingRule_apply r ns i c rng pos of (ns', pos', out) \<Rightarrow> (r, ns', pos', out))
      | InnerShortNoteRule \<Rightarrow> stateless r pos (InnerShortNoteRule_apply r ns i c))"

text \<open>The \<^verbatim>\<open>default_params\<close> dictionaries of the constructors.\<close>

definition dict_get :: "('k \<times> 'a) list \<Rightarrow> 'a \<Rightarrow> 'k \<Rightarrow> 'a" where
  "dict_get d dflt key = (case map_of d key of Some v \<Rightarrow> v | None \<Rightarrow> dflt)"

definition default_params :: "rule_class \<Rightarrow> (string \<times> real) list" where
  "default_params k =
     (case k of
        PhraseStartRule \<Rightarrow>
          [(''first_note_timing_factor'', 0.7), (''second_note_timing_factor'', - 0.3),
           (''velocity_increase_factor'', 0.07), (''phrase_position_threshold'', 0.1)]
      | PhraseEndRule \<Rightarrow>
          [(''timing_delay_factor'', 0.8), (''velocity_decrease_factor'', 0.05),
           (''length_increase_factor'', 0.1)]
      | PreLeapRule \<Rightarrow>
          [(''up_acceleration_factor'', - 0.12), (''down_delay_factor'', 0.15),
           (''reduction_factor'', 0.12)]
      | LocalPeakRule \<Rightarrow> [(''timing_delay_factor'', 0.9), (''velocity_increase_factor'', 0.15)]
      | DownbeatRule \<Rightarrow> [(''timing_delay_factor'', 0.5), (''velocity_increase_factor'', 0.1)]
      | ShortNoteRule \<Rightarrow>
          [(''very_short_reduction'', 0.05), (''short_reduction'', 0.08),
           (''velocity_increase'', 0.06), (''very_short_threshold'', 0.0625),
           (''short_threshold'', 0.125)]
      | LongNoteRule \<Rightarrow> [(''velocity_increase'', 0.05), (''threshold'', 1.0)]
      | AccelerandoRule \<Rightarrow> [(''timing_acceleration_factor'', - 0.7)]
      | SequenceAccelerationRule \<Rightarrow>
          [(''acceleration_factor'', - 0.6), (''max_acceleration'', - 0.9),
           (''dynamic_increase'', 0.05)]
      | DirectionalRule \<Rightarrow>
          [(''up_acceleration_factor'', - 0.5), (''down_delay_factor'', 0.4),
           (''velocity_adjustment'', 0.04)]
      | BassDownbeatRule \<Rightarrow> [(''timing_delay_factor'', 0.3), (''velocity_increase_factor'', 0.08)]
      | BassShortNoteRule \<Rightarrow>
          [(''very_short_reduction'', 0.06), (''short_reduction'', 0.08),
           (''min_duration_factor'', 0.12)]
      | BassRepeatedNotesRule \<Rightarrow>
          [(''velocity_variation'', 0.05), (''duration_variation'', 0.03),
           (''min_duration_factor'', 0.15), (''acceleration_factor'', - 0.04),
           (''max_acceleration'', - 0.2)]
      | BassPhraseEndRule \<Rightarrow> [(''length_increase_factor'', 0.15), (''min_duration_threshold'', 1.0)]
      | InnerVoiceBaseVelocityRule \<Rightarrow> [(''velocity_decrease_factor'', 0.05)]
      | InnerContourRule \<Rightarrow> [(''velocity_increase_factor'', 0.08)]
      | InnerConsonantRule \<Rightarrow> [(''length_increase_factor'', 0.05)]
      | InnerFlowTimingRule \<Rightarrow> [(''max_variation_factor'', 0.5)]
      | InnerShortNoteRule \<Rightarrow>
          [(''very_short_reduction'', 0.02), (''short_reduction'', 0.05),
           (''min_duration_factor'', 0.15)])"

definition default_iparams :: "rule_class \<Rightarrow> (string \<times> int) list" where
  "default_iparams k =
     (case k of
        PhraseStartRule \<Rightarrow> [(''min_duration'', 3)]
      | PhraseEndRule \<Rightarrow> [(''length_increase_threshold'', 480)]
      | PreLeapRule \<Rightarrow> [(''interval_threshold'', 4), (''min_duration'', 3)]
      | AccelerandoRule \<Rightarrow> [(''min_notes_sequence'', 3), (''interval_threshold'', 2)]
      | SequenceAccelerationRule \<Rightarrow> [(''pattern_detection_window'', 5)]
      | DirectionalRule \<Rightarrow> [(''interval_threshold'', 2)]
      | BassShortNoteRule \<Rightarrow> [(''min_duration_absolute'', 4)]
      | BassRepeatedNotesRule \<Rightarrow> [(''min_duration_absolute'', 4), (''repetition_threshold'', 3)]
      | InnerShortNoteRule \<Rightarrow> [(''min_duration'', 5)]
      | _ \<Rightarrow> [])"

definition rule_name :: "rule_class \<Rightarrow> string" where
  "rule_name k =
     (case k of
        PhraseStartRule \<Rightarrow> ''phrase_start'' | PhraseEndRule \<Rightarrow> ''phrase_end''
      | PreLeapRule \<Rightarrow> ''pre_leap'' | LocalPeakRule \<Rightarrow> ''local_peak''
      | DownbeatRule \<Rightarrow> ''downbeat'' | ShortNoteRule \<Rightarrow> ''short_note''
      | LongNoteRule \<Rightarrow> ''long_note'' | AccelerandoRule \<Rightarrow> ''accelerando''
      | SequenceAccelerationRule \<Rightarrow> ''sequence_accel'' | DirectionalRule \<Rightarrow> ''directional_timing''
      | BassDownbeatRule \<Rightarrow> ''bass_downbeat'' | BassShortNoteRule \<Rightarrow> ''bass_short''
      | BassRepeatedNotesRule \<Rightarrow> ''bass_repeated'' | BassPhraseEndRule \<Rightarrow> ''bass_phrase_end''
      | InnerVoiceBaseVelocityRule \<Rightarrow> ''inner_base_velocity'' | InnerContourRule \<Rightarrow> ''inner_contour''
      | InnerConsonantRule \<Rightarrow> ''inner_consonant'' | InnerFlowTimingRule \<Rightarrow> ''inner_timing_flow''
      | InnerShortNoteRule \<Rightarrow> ''inner_short_note'')"

text \<open>A rule constructed with \<^verbatim>\<open>enabled=True, params=None\<close>.\<close>

definition new_rule :: "rule_class \<Rightarrow> interpretation_rule" where
  "new_rule k =
     \<lparr> rule_class = k, name = rule_name k, enabled = True,
       params = dict_get (default_params k) 0,
       iparams = dict_get (default_iparams k) 0,
       consonant_intervals = (if k = InnerConsonantRule then [3, 4, 7, 8, 9] else []),
       current_sequence = [], sequence_positions = Map.empty, current_repetitions = Map.empty \<rparr>"

record rule_manager =
  rule_sets :: "(string \<times> interpretation_rule list) list"
  stats :: "(string \<times> (string \<times> nat) list) list"

text \<open>\<^verbatim>\<open>RuleManager.__init__\<close>: exactly three rule sets.\<close>

definition RuleManager :: rule_manager where
  "RuleManager =
     \<lparr> rule_sets = [(''melody'', []), (''bass'', []), (''inner'', [])],
       stats = [(''melody'', []), (''bass'', []), (''inner'', [])] \<rparr>"

text \<open>Assignment \<^verbatim>\<open>d[k] = v\<close> on an insertion-ordered dictionary.\<close>

fun dict_set :: "('k \<times> 'v) list \<Rightarrow> 'k \<Rightarrow> 'v \<Rightarrow> ('k \<times> 'v) list" where
  "dict_set [] k v = [(k, v)]"
| "dict_set (p # ps) k v = (if fst p = k then (k, v) # ps else p # dict_set ps k v)"

text \<open>\<^verbatim>\<open>RuleManager.register_rule\<close>: an unknown voice type is refused.\<close>

definition register_rule :: "string \<Rightarrow> interpretation_rule \<Rightarrow> rule_manager \<Rightarrow> rule_manager" where
  "register_rule voice_type r rm =
     (case map_of (rule_sets rm) voice_type of
        Some rs \<Rightarrow> rm\<lparr> rule_sets := dict_set (rule_sets rm) voice_type (rs @ [r]) \<rparr>
      | None \<Rightarrow> rm)"

text \<open>\<^verbatim>\<open>NoteLevelInterpreter._load_default_rules\<close>.\<close>

definition load_default_rules :: "rule_manager \<Rightarrow> rule_manager" where
  "load_default_rules rm =
     fold (\<lambda>(voice_type, k). register_rule voice_type (new_rule k))
       [(''melody'', PhraseStartRule), (''melody'', PhraseEndRule), (''melody'', PreLeapRule),
        (''melody'', LocalPeakRule), (''melody'', DownbeatRule), (''melody'', ShortNoteRule),
        (''melody'', LongNoteRule), (''melody'', AccelerandoRule),
        (''melody'', SequenceAccelerationRule), (''melody'', DirectionalRule),
        (''bass'', BassDownbeatRule), (''bass'', BassShortNoteRule),
        (''bass'', BassRepeatedNotesRule), (''bass'', BassPhraseEndRule),
        (''inner'', InnerVoiceBaseVelocityRule), (''inner'', InnerContourRule),
        (''inner'', InnerConsonantRule), (''inner'', InnerFlowTimingRule),
        (''inner'', InnerShortNoteRule)]
       rm"

text \<open>
  The choice of rule set, written twice in the source with the same text: in
  \<^verbatim>\<open>RuleManager.apply_rules\<close> and in \<^verbatim>\<open>NoteLevelInterpreter._interpret_voice\<close>.
\<close>

definition voice_type_of :: "string \<Rightarrow> string" where
  "voice_type_of voice_role =
     (if voice_role = ''bass'' then ''bass''
      else if voice_role = ''inner_voice'' then ''inner''
      else ''melody'')"

text \<open>
  The statistics update after a rule reported \<^verbatim>\<open>True\<close>:
  \<^verbatim>\<open>stats[voice_type][rule.name] += 1\<close>, or \<^verbatim>\<open>= 1\<close> for a new name.
\<close>

definition count_application :: "string \<Rightarrow> string \<Rightarrow> (string \<times> (string \<times> nat) list) list
    \<Rightarrow> (string \<times> (string \<times> nat) list) list" where
  "count_application voice_type nm st =
     (case map_of st voice_type of
        None \<Rightarrow> st
      | Some d \<Rightarrow>
          dict_set st voice_type
            (dict_set d nm (case map_of d nm of Some k \<Rightarrow> k + 1 | None \<Rightarrow> 1)))"

text \<open>
  The inner loop \<^verbatim>\<open>for rule in rule_sets[voice_type]\<close> on one note: disabled rules are
  skipped, an exception in \<^verbatim>\<open>apply\<close> is caught and the loop goes on. The result holds the
  rule objects (with their state), the notes, the generator position, the statistics
  and the number of rules that reported \<^verbatim>\<open>True\<close>.
\<close>

type_synonym rules_state =
  "interpretation_rule list \<times> note_properties list \<times> nat \<times> (string \<times> (string \<times> nat) list) list \<times> nat"

fun run_rules ::
  "string \<Rightarrow> interpretation_context \<Rightarrow> (nat \<Rightarrow> real) \<Rightarrow> nat \<Rightarrow> interpretation_rule list
     \<Rightarrow> note_properties list \<Rightarrow> nat \<Rightarrow> (string \<times> (string \<times> nat) list) list \<Rightarrow> rules_state" where
  "run_rules voice_type c rng i [] ns pos st = ([], ns, pos, st, 0)"
| "run_rules voice_type c rng i (r # rs) ns pos st =
     (if enabled r then
        (case rule_apply r ns i c rng pos of
           (r', ns', pos', out) \<Rightarrow>
             (case run_rules voice_type c rng i rs ns' pos'
                     (if out = Applied then count_application voice_type (name r') st else st) of
                (rs', ns'', pos'', st'', k) \<Rightarrow>
                  (r' # rs', ns'', pos'', st'', (if out = Applied then k + 1 else k))))
      else
        (case run_rules voice_type c rng i rs ns pos st of
           (rs', ns'', pos'', st'', k) \<Rightarrow> (r # rs', ns'', pos'', st'', k)))"

text \<open>
  \<^verbatim>\<open>RuleManager.apply_rules\<close>: every enabled rule of the voice's rule set on every note,
  with one context for the whole voice. Returns the manager, the notes, the generator
  position and \<^verbatim>\<open>applied_count\<close>.
\<close>

fun apply_rules_loop ::
  "string \<Rightarrow> interpretation_context \<Rightarrow> (nat \<Rightarrow> real) \<Rightarrow> nat list \<Rightarrow> rules_state \<Rightarrow> rules_state" where
  "apply_rules_loop voice_type c rng [] s = s"
| "apply_rules_loop voice_type c rng (i # is) (rs, ns, pos, st, k) =
     (case run_rules voice_type c rng i rs ns pos st of
        (rs', ns', pos', st', k') \<Rightarrow>
          apply_rules_loop voice_type c rng is (rs', ns', pos', st', k + k'))"

definition apply_rules ::
  "rule_manager \<Rightarrow> voice \<Rightarrow> interpretation_context \<Rightarrow> (nat \<Rightarrow> real) \<Rightarrow> nat
     \<Rightarrow> rule_manager \<times> voice \<times> nat \<times> nat" where
  "apply_rules rm v c rng pos =
     (let voice_type = voice_type_of (role v)
      in case map_of (rule_sets rm) voice_type of
           None \<Rightarrow> (rm, v, pos, 0)
         | Some rs \<Rightarrow>
             (case apply_rules_loop voice_type c rng [0..<length (voice_notes v)]
                     (rs, voice_notes v, pos, stats rm, 0) of
                (rs', ns', pos', st', k) \<Rightarrow>
                  (rm\<lparr> rule_sets := dict_set (rule_sets rm) voice_type rs', stats := st' \<rparr>,
                   v\<lparr> voice_notes := ns' \<rparr>, pos', k)))"

section \<open>The orchestral conductor (\<^verbatim>\<open>orchestral_conductor.py\<close>)\<close>

text \<open>
  The dictionaries \<^verbatim>\<open>agogic_map\<close> and \<^verbatim>\<open>gravity_centers\<close> are insertion-ordered
  association lists; the entries of \<^verbatim>\<open>stats\<close> are fields.
\<close>

record conductor_state =
  oc_expressiveness :: real
  wave_strength :: real
  wave_complexity :: real
  agogic_map :: "(int \<times> real) list"
  phrase_boundaries :: "(int \<times> int) list"
  cadences :: "int list"
  gravity_centers :: "(int \<times> real) list"
  measure_count :: int
  phrase_count :: nat
  cadence_count :: nat
  avg_wave_amplitude :: real
  stat_max_acceleration :: real
  stat_max_delay :: real

text \<open>\<^verbatim>\<open>OrchestralConductor.__init__\<close>.\<close>

definition OrchestralConductor :: "real \<Rightarrow> real \<Rightarrow> real \<Rightarrow> conductor_state" where
  "OrchestralConductor expr ws wc =
     \<lparr> oc_expressiveness = expr, wave_strength = ws, wave_complexity = wc,
       agogic_map = [], phrase_boundaries = [], cadences = [], gravity_centers = [],
       measure_count = 0, phrase_count = 0, cadence_count = 0,
       avg_wave_amplitude = 0, stat_max_acceleration = 0, stat_max_delay = 0 \<rparr>"

text \<open>
  \<^verbatim>\<open>_estimate_measure_number\<close>: a \<^verbatim>\<open>NoteProperties\<close> object has no
  \<^verbatim>\<open>measure_number\<close> attribute, so the start time is divided by 1920 ticks
  (floor division).
\<close>

definition estimate_measure_number :: "note_properties \<Rightarrow> int" where
  "estimate_measure_number n = original_start_time n div 1920"

definition get_measure_from_note_index :: "voice \<Rightarrow> nat \<Rightarrow> int option" where
  "get_measure_from_note_index v note_index =
     (if voice_notes v = [] \<or> note_index \<ge> length (voice_notes v) then None
      else Some (estimate_measure_number (voice_notes v ! note_index)))"

text \<open>\<^verbatim>\<open>range(0, stop, 8)\<close>.\<close>

definition range8 :: "int \<Rightarrow> int list" where
  "range8 stop = map (\<lambda>k. 8 * int k) [0..<nat ((stop + 7) div 8)]"

text \<open>
  The body of the loop shared by \<^verbatim>\<open>_create_default_structure\<close> and
  \<^verbatim>\<open>_create_default_structure_from_voices\<close>; \<open>last_measure\<close> is the bound in
  \<^verbatim>\<open>min(i+7, ...)\<close>. The state is (phrase boundaries, cadences, gravity centers).
\<close>

definition default_phrase ::
  "int \<Rightarrow> int \<Rightarrow> (int \<times> int) list \<times> int list \<times> (int \<times> real) list
     \<Rightarrow> (int \<times> int) list \<times> int list \<times> (int \<times> real) list" where
  "default_phrase last_measure i st =
     (case st of (pbs, cads, grav) \<Rightarrow>
        let end_measure = min (i + 7) last_measure;
            grav1 = dict_set grav end_measure 0.6;
            mid = i + 4
        in (pbs @ [(i, end_measure)], cads @ [end_measure],
            if mid < end_measure then dict_set grav1 mid 0.3 else grav1))"

definition create_default_structure :: "int \<Rightarrow> conductor_state \<Rightarrow> conductor_state" where
  "create_default_structure measure_count0 c =
     (let mc = (if measure_count0 \<le> 0 then 16 else measure_count0)
      in case fold (default_phrase (mc - 1)) (range8 mc) ([], [], []) of
           (pbs, cads, grav) \<Rightarrow>
             c\<lparr> measure_count := mc, phrase_boundaries := pbs, cadences := cads,
                gravity_centers := grav, phrase_count := length pbs,
                cadence_count := length cads \<rparr>)"

definition create_default_structure_from_voices ::
  "voice list \<Rightarrow> int \<Rightarrow> conductor_state \<Rightarrow> conductor_state" where
  "create_default_structure_from_voices vs max_measure0 c =
     (let max_measure1 =
            (if max_measure0 \<le> 0
             then fold (\<lambda>v m. if voice_notes v \<noteq> []
                               then max m (estimate_measure_number (last (voice_notes v))) else m) vs 0
             else max_measure0);
          max_measure = max 16 max_measure1
      in case fold (default_phrase max_measure) (range8 max_measure) ([], [], []) of
           (pbs, cads, grav) \<Rightarrow>
             c\<lparr> measure_count := max_measure + 1, phrase_boundaries := pbs, cadences := cads,
                gravity_centers := grav, phrase_count := length pbs,
                cadence_count := length cads \<rparr>)"

subsection \<open>\<^verbatim>\<open>analyze_structure\<close>\<close>

text \<open>A collected boundary is \<^verbatim>\<open>(start_measure, end_measure, voice_idx, phrase_type)\<close>.\<close>

type_synonym boundary = "int \<times> int \<times> nat \<times> string"

definition voice_phrase_boundaries :: "nat \<Rightarrow> voice \<Rightarrow> boundary list" where
  "voice_phrase_boundaries voice_idx v =
     concat (map (\<lambda>(phrase_start, phrase_end, phrase_type).
                    case (get_measure_from_note_index v phrase_start,
                          get_measure_from_note_index v phrase_end) of
                      (Some start_measure, Some end_measure) \<Rightarrow>
                        [(start_measure, end_measure, voice_idx, phrase_type)]
                    | _ \<Rightarrow> [])
                 (phrases v))"

definition collect_phrase_boundaries :: "voice list \<Rightarrow> boundary list" where
  "collect_phrase_boundaries vs =
     concat (map (\<lambda>(voice_idx, v). voice_phrase_boundaries voice_idx v) (enumerate 0 vs))"

definition max_measure_found :: "voice list \<Rightarrow> int" where
  "max_measure_found vs =
     fold (\<lambda>v m. fold (\<lambda>n m'. max m' (estimate_measure_number n)) (voice_notes v) m) vs 0"

text \<open>
  The grouping loop: a boundary joins the current group when the group is empty or its
  start is within one measure of the start of the group's last member.
\<close>

definition group_step :: "boundary \<Rightarrow> boundary list \<times> boundary list list \<Rightarrow> boundary list \<times> boundary list list" where
  "group_step b st =
     (case st of (current_group, grouped_boundaries) \<Rightarrow>
        if current_group = [] \<or> \<bar>fst b - fst (last current_group)\<bar> \<le> 1
        then (current_group @ [b], grouped_boundaries)
        else ([b], grouped_boundaries @ [current_group]))"

definition group_boundaries :: "boundary list \<Rightarrow> boundary list list" where
  "group_boundaries bs =
     (case fold group_step bs ([], []) of
        (current_group, grouped_boundaries) \<Rightarrow>
          if current_group \<noteq> [] then grouped_boundaries @ [current_group] else grouped_boundaries)"

text \<open>The promotion threshold \<^verbatim>\<open>max(1, len(voices) // 3)\<close>.\<close>

definition promotion_threshold :: "nat \<Rightarrow> int" where
  "promotion_threshold n_voices = max 1 (int n_voices div 3)"

text \<open>
  The body of \<^verbatim>\<open>for group in grouped_boundaries\<close>. The state is
  (\<^verbatim>\<open>phrase_boundaries\<close>, \<^verbatim>\<open>cadences\<close>, \<^verbatim>\<open>gravity_centers\<close>).
\<close>

definition promote_group ::
  "nat \<Rightarrow> boundary list \<Rightarrow> (int \<times> int) list \<times> int list \<times> (int \<times> real) list
     \<Rightarrow> (int \<times> int) list \<times> int list \<times> (int \<times> real) list" where
  "promote_group n_voices grp st =
     (case st of (pbs, cads, grav) \<Rightarrow>
        if int (length grp) \<ge> promotion_threshold n_voices then
          (let avg_start = real_of_int (sum_list (map fst grp)) / real (length grp);
               avg_end = real_of_int (sum_list (map (fst \<circ> snd) grp)) / real (length grp);
               phrase_start = py_round avg_start;
               phrase_end = py_round avg_end;
               cadence_likelihood = real (length grp) / real n_voices
           in if cadence_likelihood \<ge> 0.5
              then (pbs @ [(phrase_start, phrase_end)], cads @ [phrase_end],
                    dict_set grav phrase_end (min 1.0 (0.7 + cadence_likelihood * 0.3)))
              else (pbs @ [(phrase_start, phrase_end)], cads, grav))
        else st)"

definition analyze_structure :: "voice list \<Rightarrow> conductor_state \<Rightarrow> conductor_state" where
  "analyze_structure vs c =
     (if vs = [] then create_default_structure 16 c
      else
        let all_phrase_boundaries = collect_phrase_boundaries vs;
            found = max_measure_found vs
        in if all_phrase_boundaries \<noteq> [] then
             (let sorted_boundaries = sort_key fst all_phrase_boundaries;
                  ends = map (fst \<circ> snd) sorted_boundaries;
                  max_measure = fold max ends (hd ends);
                  grouped_boundaries = group_boundaries sorted_boundaries
              in case fold (promote_group (length vs)) grouped_boundaries
                        ([], cadences c, gravity_centers c) of
                   (pbs, cads, grav) \<Rightarrow>
                     c\<lparr> measure_count := max (max_measure + 1) (found + 1),
                        phrase_boundaries := pbs, cadences := cads, gravity_centers := grav,
                        phrase_count := length pbs, cadence_count := length cads \<rparr>)
           else create_default_structure_from_voices vs found c)"

subsection \<open>\<^verbatim>\<open>create_agogic_map\<close>\<close>

text \<open>\<^verbatim>\<open>np.linspace(start, stop, num)\<close>.\<close>

definition linspace :: "real \<Rightarrow> real \<Rightarrow> nat \<Rightarrow> real list" where
  "linspace start stop num =
     (if num = 1 then [start]
      else map (\<lambda>i. start + real i * ((stop - start) / real (num - 1))) [0..<num])"

text \<open>
  Internal failures are inputs of the model: \<open>wave_fault\<close> is an exception while the
  complex wave is computed, \<open>sine_fault\<close> one inside \<^verbatim>\<open>_generate_simple_wave\<close>,
  \<open>map_fault\<close> one in the body of \<^verbatim>\<open>create_agogic_map\<close> after the base wave.
\<close>

record faults =
  wave_fault :: bool
  sine_fault :: bool
  map_fault :: bool

text \<open>\<^verbatim>\<open>_generate_simple_wave\<close>, with its fallback to alternating values.\<close>

definition generate_simple_wave :: "bool \<Rightarrow> int \<Rightarrow> real \<Rightarrow> real list" where
  "generate_simple_wave fails length0 amplitude0 =
     (let len = (if length0 \<le> 0 then 16 else length0);
          amplitude = (if amplitude0 \<le> 0 then 0.5 else amplitude0)
      in if fails
         then map (\<lambda>i. amplitude * (if i mod 2 = 0 then 0.5 else - 0.5)) [0..<nat len]
         else map (\<lambda>i. amplitude * sin (2 * pi * real i / 8)) [0..<nat len])"

text \<open>
  \<^verbatim>\<open>_generate_wave_function\<close>. The three calls of \<^verbatim>\<open>np.random.rand()\<close> are the
  inputs \<open>r1\<close>, \<open>r2\<close>, \<open>r3\<close>.
\<close>

definition generate_wave_function ::
  "faults \<Rightarrow> real \<times> real \<times> real \<Rightarrow> int \<Rightarrow> real \<Rightarrow> real \<Rightarrow> real \<Rightarrow> real list" where
  "generate_wave_function fl rnd length0 amplitude0 frequency0 complexity0 =
     (case rnd of (r1, r2, r3) \<Rightarrow>
        let len = (if length0 \<le> 0 then 16 else length0);
            amplitude = (if amplitude0 \<le> 0 then 0.5 else amplitude0);
            frequency = (if frequency0 \<le> 0 then 0.2 else frequency0);
            complexity = (if complexity0 < 0 \<or> complexity0 > 1 then 0.5 else complexity0)
        in if wave_fault fl then generate_simple_wave (sine_fault fl) len amplitude
           else
             let xs = linspace 0 (2 * pi * frequency * real_of_int len) (nat len);
                 combined_wave =
                   (if complexity > 0
                    then map (\<lambda>x. amplitude * sin x
                                   + 0.3 * amplitude * complexity * sin (x * 3.1 + r1 * pi)
                                   + 0.2 * amplitude * complexity * sin (x * 1.7 + r2 * pi)
                                   + 0.1 * amplitude * complexity * sin (x * 0.5 + r3 * pi)) xs
                    else map (\<lambda>x. amplitude * sin x) xs);
                 max_val = max \<bar>fold max combined_wave (hd combined_wave)\<bar>
                               \<bar>fold min combined_wave (hd combined_wave)\<bar>
             in if max_val > 0 then map (\<lambda>v. v / max_val * amplitude) combined_wave
                else combined_wave)"

text \<open>Section A of \<^verbatim>\<open>create_agogic_map\<close>: one phrase boundary.\<close>

definition emphasize_boundary :: "real \<Rightarrow> int \<Rightarrow> int \<times> int \<Rightarrow> real list \<Rightarrow> real list" where
  "emphasize_boundary expr mc b w =
     (case b of (start_measure, end_measure) \<Rightarrow>
        let phrase_end_factor = min 1.0 (0.6 + expr * 0.4);
            w1 = (if 0 \<le> end_measure \<and> end_measure < mc \<and> end_measure > 0 \<and> end_measure < mc - 1
                  then (let w0 = w[nat (end_measure - 1) :=
                                     min (w ! nat (end_measure - 1) + 0.3 * phrase_end_factor) 1.0]
                        in w0[nat end_measure := min (w0 ! nat end_measure + 0.6 * phrase_end_factor) 1.0])
                  else w)
        in if 0 \<le> start_measure \<and> start_measure < mc \<and> start_measure + 1 < mc
           then w1[nat (start_measure + 1) := max (w1 ! nat (start_measure + 1) - 0.25 * expr) (- 1.0)]
           else w1)"

text \<open>Section B: one cadence.\<close>

definition emphasize_cadence :: "real \<Rightarrow> int \<Rightarrow> int \<Rightarrow> real list \<Rightarrow> real list" where
  "emphasize_cadence expr mc cadence w =
     (if 0 \<le> cadence \<and> cadence < mc then
        (let cadence_factor = min 1.0 (0.8 + expr * 0.2);
             w1 = w[nat cadence := min (w ! nat cadence + 0.8 * cadence_factor) 1.0]
         in if cadence > 0
            then w1[nat (cadence - 1) := min (w1 ! nat (cadence - 1) + 0.5 * cadence_factor) 1.0]
            else w1)
      else w)"

text \<open>Section C: one gravity center.\<close>

definition reinforce_gravity :: "real \<Rightarrow> int \<Rightarrow> int \<times> real \<Rightarrow> real list \<Rightarrow> real list" where
  "reinforce_gravity expr mc g w =
     (case g of (measure_nr, strength) \<Rightarrow>
        if 0 \<le> measure_nr \<and> measure_nr < mc then
          (let gravity_effect = strength * expr * 0.4
           in if w ! nat measure_nr > 0 then w[nat measure_nr := min (w ! nat measure_nr + gravity_effect) 1.0]
              else if w ! nat measure_nr < 0 then w[nat measure_nr := max (w ! nat measure_nr - gravity_effect) (- 1.0)]
              else w)
        else w)"

text \<open>\<^verbatim>\<open>{i: wave[i] for i in range(measure_count)}\<close> and the statistics.\<close>

definition fill_map :: "int \<Rightarrow> real list \<Rightarrow> (int \<times> real) list" where
  "fill_map mc w = map (\<lambda>i. (int i, w ! i)) [0..<nat mc]"

definition store_map :: "int \<Rightarrow> real list \<Rightarrow> conductor_state \<Rightarrow> conductor_state" where
  "store_map mc w c =
     (let lo = fold min w (hd w); hi = fold max w (hd w)
      in c\<lparr> agogic_map := fill_map mc w,
            avg_wave_amplitude := sum_list (map abs w) / real_of_int mc,
            stat_max_acceleration := (if lo < 0 then \<bar>lo\<bar> else 0),
            stat_max_delay := (if hi > 0 then hi else 0) \<rparr>)"

text \<open>\<^verbatim>\<open>_create_fallback_agogic_map\<close>.\<close>

definition create_fallback_agogic_map :: "faults \<Rightarrow> conductor_state \<Rightarrow> conductor_state" where
  "create_fallback_agogic_map fl c =
     (let mc = (if measure_count c \<le> 0 then 16 else measure_count c);
          simple_wave = generate_simple_wave (sine_fault fl) mc (wave_strength c * 0.7)
      in store_map mc simple_wave c)"

definition create_agogic_map :: "faults \<Rightarrow> real \<times> real \<times> real \<Rightarrow> conductor_state \<Rightarrow> conductor_state" where
  "create_agogic_map fl rnd c0 =
     (let mc = (if measure_count c0 \<le> 0 then 16 else measure_count c0);
          c = c0\<lparr> measure_count := mc \<rparr>
      in if map_fault fl then create_fallback_agogic_map fl c
         else
           let base_wave = generate_wave_function fl rnd mc (wave_strength c) 0.15 (wave_complexity c);
               wave_a = fold (emphasize_boundary (oc_expressiveness c) mc) (phrase_boundaries c) base_wave;
               wave_b = fold (emphasize_cadence (oc_expressiveness c) mc) (cadences c) wave_a;
               modified_wave = fold (reinforce_gravity (oc_expressiveness c) mc) (gravity_centers c) wave_b
           in store_map mc modified_wave c)"

subsection \<open>\<^verbatim>\<open>get_timing_direction\<close>\<close>

definition get_timing_direction :: "conductor_state \<Rightarrow> int \<Rightarrow> real \<Rightarrow> real" where
  "get_timing_direction c measure_number0 beat_position0 =
     (if agogic_map c = [] then 0.0
      else
        let keys = map fst (agogic_map c);
            max_measure = fold max keys (hd keys);
            measure_number = max 0 (min measure_number0 max_measure);
            base_direction = dict_get (agogic_map c) 0.0 measure_number;
            beat_position = (if beat_position0 < 0 \<or> beat_position0 > 1 then 0.5 else beat_position0);
            enhancement = (beat_position - 0.5) * 2 * 0.3;
            center_distance = \<bar>beat_position - 0.5\<bar>;
            center_effect = (0.5 - center_distance) * 2 * 0.2
        in if (measure_number \<in> set (cadences c) \<or> measure_number \<in> set (map snd (phrase_boundaries c)))
              \<and> beat_position > 0.5
           then min (base_direction + enhancement) 1.0
           else if measure_number \<in> set (map fst (gravity_centers c)) \<and> base_direction > 0
           then min (base_direction + center_effect) 1.0
           else if measure_number \<in> set (map fst (gravity_centers c)) \<and> base_direction < 0
           then max (base_direction - center_effect) (- 1.0)
           else base_direction)"

section \<open>The interpreter (\<^verbatim>\<open>note_manipulator.py\<close>)\<close>

record interpreter =
  interp_expressiveness :: real
  interp_rubato_strength :: real
  interp_articulation_strength :: real
  interp_dynamics_strength :: real
  voices :: "voice list"
  interp_ticks_per_beat :: int
  rule_manager :: rule_manager
  orchestral_conductor :: conductor_state
  adjusted_notes :: nat
  corrected_durations :: nat
  critical_corrections :: nat

text \<open>\<^verbatim>\<open>NoteLevelInterpreter.__init__\<close> without a rule configuration file.\<close>

definition NoteLevelInterpreter :: "real \<Rightarrow> real \<Rightarrow> real \<Rightarrow> real \<Rightarrow> interpreter" where
  "NoteLevelInterpreter expr rubato artic dyn =
     \<lparr> interp_expressiveness = expr, interp_rubato_strength = rubato,
       interp_articulation_strength = artic, interp_dynamics_strength = dyn,
       voices = [], interp_ticks_per_beat = 480,
       rule_manager = load_default_rules RuleManager,
       orchestral_conductor = OrchestralConductor expr (rubato * 0.9) 0.8,
       adjusted_notes = 0, corrected_durations = 0, critical_corrections = 0 \<rparr>"

subsection \<open>\<^verbatim>\<open>_interpret_voice\<close>\<close>

text \<open>\<^verbatim>\<open>_get_measure_number\<close>: floor division; a zero divisor is caught and gives 0.\<close>

definition get_measure_number :: "int \<Rightarrow> note_properties \<Rightarrow> int" where
  "get_measure_number tpb n =
     (let ticks_per_measure = tpb * 4
      in if ticks_per_measure = 0 then 0 else original_start_time n div ticks_per_measure)"

text \<open>
  The body of \<^verbatim>\<open>for note_idx, note in enumerate(voice.notes)\<close>. The state is
  (\<^verbatim>\<open>timing_direction_cache\<close>, the rule objects of the chosen rule set, the notes, the
  generator position, the rule statistics, \<^verbatim>\<open>notes_adjusted\<close>).
\<close>

type_synonym voice_state =
  "(int \<times> real) list \<times> interpretation_rule list \<times> note_properties list \<times> nat
     \<times> (string \<times> (string \<times> nat) list) list \<times> nat"

definition interpret_note :: "interpreter \<Rightarrow> string \<Rightarrow> (nat \<Rightarrow> real) \<Rightarrow> nat \<Rightarrow> voice_state \<Rightarrow> voice_state" where
  "interpret_note I voice_type rng i s =
     (case s of (cache, rs, ns, pos, st, notes_adjusted) \<Rightarrow>
        let measure_nr = get_measure_number (interp_ticks_per_beat I) (ns ! i);
            beat_position = metric_position (ns ! i);
            timing_direction_bias =
              (case map_of cache measure_nr of
                 Some b \<Rightarrow> b
               | None \<Rightarrow> get_timing_direction (orchestral_conductor I) measure_nr beat_position);
            cache' =
              (case map_of cache measure_nr of
                 Some b \<Rightarrow> cache
               | None \<Rightarrow> dict_set cache measure_nr timing_direction_bias);
            c = InterpretationContext (interp_ticks_per_beat I) (interp_expressiveness I)
                  (interp_rubato_strength I) (interp_articulation_strength I)
                  (interp_dynamics_strength I) timing_direction_bias
        in case run_rules voice_type c rng i rs ns pos st of
             (rs', ns', pos', st', k) \<Rightarrow>
               let is_adjusted =
                     (adjusted_start_time (ns' ! i) \<noteq> original_start_time (ns' ! i)
                      \<or> adjusted_duration (ns' ! i) \<noteq> original_duration (ns' ! i)
                      \<or> adjusted_velocity (ns' ! i) \<noteq> velocity (ns' ! i))
               in (cache', rs', ns', pos', st',
                   if is_adjusted then notes_adjusted + 1 else notes_adjusted))"

text \<open>
  \<^verbatim>\<open>_interpret_voice\<close>: the rule set is chosen by \<open>voice_type_of\<close>; when the manager has
  no rule set of that name the rule loop is skipped.
\<close>

definition interpret_voice :: "interpreter \<Rightarrow> voice \<Rightarrow> (nat \<Rightarrow> real) \<Rightarrow> nat \<Rightarrow> interpreter \<times> voice \<times> nat" where
  "interpret_voice I v rng pos =
     (let voice_type = voice_type_of (role v);
          found = map_of (rule_sets (rule_manager I)) voice_type;
          rs = (case found of Some rs0 \<Rightarrow> rs0 | None \<Rightarrow> [])
      in case fold (interpret_note I voice_type rng) [0..<length (voice_notes v)]
                ([], rs, voice_notes v, pos, stats (rule_manager I), 0) of
           (cache, rs', ns', pos', st', notes_adjusted) \<Rightarrow>
             (I\<lparr> rule_manager := (rule_manager I)
                    \<lparr> rule_sets := (case found of
                                     Some rs0 \<Rightarrow> dict_set (rule_sets (rule_manager I)) voice_type rs'
                                   | None \<Rightarrow> rule_sets (rule_manager I)),
                      stats := st' \<rparr>,
                 adjusted_notes := adjusted_notes I + notes_adjusted \<rparr>,
              v\<lparr> voice_notes := ns' \<rparr>, pos'))"

subsection \<open>\<^verbatim>\<open>_validate_and_fix_note_durations\<close>\<close>

text \<open>
  The floats of this pass are doubles. The division of the two integers is rounded once;
  the literals 0.0625, 0.125, 0.25 and 0.5 are doubles themselves, and 0.9, 0.8, 0.7 and
  0.6 stand for the doubles nearest to them.

  The percentage chosen by the \<^verbatim>\<open>if\<close> / \<^verbatim>\<open>elif\<close> chain on \<^verbatim>\<open>relative_duration\<close>.
\<close>

definition min_percent :: "real \<Rightarrow> real" where
  "min_percent relative_duration =
     (if relative_duration \<le> 0.0625 then double_round 0.9
      else if relative_duration \<le> 0.125 then double_round 0.8
      else if relative_duration \<le> 0.25 then double_round 0.7
      else double_round 0.6)"

text \<open>\<^verbatim>\<open>min_duration\<close> for a note of original duration \<open>od\<close>.\<close>

definition min_duration_of :: "int \<Rightarrow> int \<Rightarrow> int" where
  "min_duration_of tpb od =
     (let relative_duration = double_round (real_of_int od / real_of_int tpb);
          absolute_min =
            max 2 (py_int (double_round (double_round (py_float tpb * relative_duration) * 0.5)))
      in max absolute_min (py_int (double_round (py_float od * min_percent relative_duration))))"

text \<open>
  Whether the computation of \<^verbatim>\<open>min_duration\<close> raises \<^verbatim>\<open>OverflowError\<close>: in the conversion
  of \<^verbatim>\<open>ticks_per_beat\<close>, in the truncation of an infinite product, or in the conversion of
  \<^verbatim>\<open>original_duration\<close>.
\<close>

definition floor_overflow :: "int \<Rightarrow> int \<Rightarrow> bool" where
  "floor_overflow tpb od =
     (let relative_duration = double_round (real_of_int od / real_of_int tpb)
      in \<not> finite_double (py_float tpb)
         \<or> \<not> finite_double (double_round (py_float tpb * relative_duration))
         \<or> \<not> finite_double (py_float od))"

text \<open>
  The body of the inner loop on one note: the note, whether it was corrected, whether
  the correction is critical. A zero \<^verbatim>\<open>ticks_per_beat\<close> raises in the first statement,
  as does a quotient beyond the doubles; every exception of the body is caught and the
  note is left as it is. The whole computation is under \<^verbatim>\<open>if relative_duration <= 0.25\<close>.
\<close>

definition validate_note :: "int \<Rightarrow> note_properties \<Rightarrow> note_properties \<times> bool \<times> bool" where
  "validate_note tpb n =
     (if tpb = 0 then (n, False, False)
      else
        let relative_duration = double_round (real_of_int (original_duration n) / real_of_int tpb)
        in if \<not> finite_double relative_duration then (n, False, False)
           else if relative_duration \<le> 0.25 then
             (if floor_overflow tpb (original_duration n) then (n, False, False)
              else
                let min_duration = min_duration_of tpb (original_duration n)
                in if adjusted_duration n < min_duration
                   then (n\<lparr> adjusted_duration := min_duration \<rparr>, True,
                         real_of_int (adjusted_duration n) < double_round (py_float min_duration * 0.5))
                   else (n, False, False))
           else (n, False, False))"

text \<open>The loops over the notes of a voice and over the voices, with both counters.\<close>

fun validate_notes :: "int \<Rightarrow> note_properties list \<Rightarrow> note_properties list \<times> nat \<times> nat" where
  "validate_notes tpb [] = ([], 0, 0)"
| "validate_notes tpb (n # ns) =
     (case validate_note tpb n of
        (n', corrected, critical) \<Rightarrow>
          (case validate_notes tpb ns of
             (ns', corrected_notes, critical_notes) \<Rightarrow>
               (n' # ns',
                (if corrected then corrected_notes + 1 else corrected_notes),
                (if critical then critical_notes + 1 else critical_notes))))"

fun validate_voices :: "int \<Rightarrow> voice list \<Rightarrow> voice list \<times> nat \<times> nat" where
  "validate_voices tpb [] = ([], 0, 0)"
| "validate_voices tpb (v # vs) =
     (case validate_notes tpb (voice_notes v) of
        (ns', c1, k1) \<Rightarrow>
          (case validate_voices tpb vs of
             (vs', c2, k2) \<Rightarrow> (v\<lparr> voice_notes := ns' \<rparr> # vs', c1 + c2, k1 + k2)))"

definition validate_and_fix_note_durations :: "interpreter \<Rightarrow> interpreter" where
  "validate_and_fix_note_durations I =
     (case validate_voices (interp_ticks_per_beat I) (voices I) of
        (vs', corrected_notes, critical_notes) \<Rightarrow>
          if corrected_notes > 0
          then I\<lparr> voices := vs', corrected_durations := corrected_notes,
                  critical_corrections := critical_notes \<rparr>
          else I\<lparr> voices := vs' \<rparr>)"

subsection \<open>\<^verbatim>\<open>interpret\<close>\<close>

fun interpret_voices ::
  "(nat \<Rightarrow> real) \<Rightarrow> voice list \<Rightarrow> interpreter \<Rightarrow> nat \<Rightarrow> voice list \<times> interpreter \<times> nat" where
  "interpret_voices rng [] I pos = ([], I, pos)"
| "interpret_voices rng (v # vs) I pos =
     (case interpret_voice I v rng pos of
        (I', v', pos') \<Rightarrow>
          (case interpret_voices rng vs I' pos' of
             (vs', I'', pos'') \<Rightarrow> (v' # vs', I'', pos'')))"

text \<open>
  The rule-application pass over all voices, as \<^verbatim>\<open>interpret\<close> runs it after the
  conductor has analysed the structure and built its map.
\<close>

definition apply_all_rules :: "faults \<Rightarrow> real \<times> real \<times> real \<Rightarrow> (nat \<Rightarrow> real) \<Rightarrow> interpreter \<Rightarrow> interpreter" where
  "apply_all_rules fl rnd rng I =
     (let oc = create_agogic_map fl rnd (analyze_structure (voices I) (orchestral_conductor I));
          I1 = I\<lparr> orchestral_conductor := oc \<rparr>
      in case interpret_voices rng (voices I1) I1 0 of
           (vs', I2, pos) \<Rightarrow> I2\<lparr> voices := vs' \<rparr>)"

text \<open>\<^verbatim>\<open>NoteLevelInterpreter.interpret\<close>: the rule pass, then the safety validation.\<close>

definition interpret_run :: "faults \<Rightarrow> real \<times> real \<times> real \<Rightarrow> (nat \<Rightarrow> real) \<Rightarrow> interpreter \<Rightarrow> interpreter" where
  "interpret_run fl rnd rng I = validate_and_fix_note_durations (apply_all_rules fl rnd rng I)"

text \<open>
  The floor for comparison, in the words of the specification: the tiers are at 1/32,
  1/16 and 1/8 of a beat, longer notes keep 60 percent, and the percentages are exact.
\<close>

definition spec_min_percent :: "real \<Rightarrow> real" where
  "spec_min_percent relative_duration =
     (if relative_duration \<le> 1 / 32 then 0.9
      else if relative_duration \<le> 1 / 16 then 0.8
      else if relative_duration \<le> 1 / 8 then 0.7
      else 0.6)"

definition spec_floor :: "int \<Rightarrow> int \<Rightarrow> int" where
  "spec_floor tpb od =
     (let relative_duration = real_of_int od / real_of_int tpb;
          absolute_min = max 2 (py_int (real_of_int tpb * relative_duration * 0.5))
      in max absolute_min (py_int (real_of_int od * spec_min_percent relative_duration)))"

section \<open>Curve anchor points (\<^verbatim>\<open>dynamics.py\<close>, step 4 of \<^verbatim>\<open>extract_dynamic_points_baroque\<close>)\<close>

text \<open>
  A point is \<^verbatim>\<open>(offset, value)\<close>: the offset in beats, the value an integer. The loop
  \<^verbatim>\<open>for i in range(1, len(points))\<close> looks at each adjacent pair of the sorted list.
\<close>

type_synonym point = "real \<times> int"

definition midpoint_of :: "point \<Rightarrow> point \<Rightarrow> point" where
  "midpoint_of prev_point curr_point =
     (case prev_point of (prev_offset, prev_value) \<Rightarrow>
      case curr_point of (curr_offset, curr_value) \<Rightarrow>
        (prev_offset + (curr_offset - prev_offset) / 2,
         py_int (real_of_int prev_value + real_of_int (curr_value - prev_value) / 2)))"

definition interpolated_points :: "point list \<Rightarrow> point list" where
  "interpolated_points pts =
     concat (map (\<lambda>i. if fst (pts ! i) - fst (pts ! (i - 1)) > 8.0
                       then [midpoint_of (pts ! (i - 1)) (pts ! i)] else [])
                 [1..<length pts])"

definition add_contour_points :: "point list \<Rightarrow> point list" where
  "add_contour_points filtered_points =
     (let pts = sort_key fst filtered_points
      in sort_key fst (pts @ interpolated_points pts))"

section \<open>Example inputs\<close>

text \<open>
  A voice of two notes at 480 ticks per beat whose durations the rules have shortened:
  a note of 24 ticks cut to 10, and a quarter note of 480 ticks cut to 100.
\<close>

definition short_then_long :: "note_properties list" where
  "short_then_long =
     [(NoteProperties 60 80 0 24 0 0)\<lparr> adjusted_duration := 10 \<rparr>,
      (NoteProperties 62 80 480 480 0 0)\<lparr> adjusted_duration := 100 \<rparr>]"

definition example_voice :: voice where
  "example_voice = (MusicalVoice 0 0)\<lparr> voice_notes := short_then_long, role := ''melody'' \<rparr>"

definition example_interpreter :: interpreter where
  "example_interpreter = (NoteLevelInterpreter 0.5 0.6 0.7 0.7)\<lparr> voices := [example_voice] \<rparr>"

text \<open>
  A note of 90 ticks cut to 62. In doubles \<^verbatim>\<open>90 * 0.7\<close> is \<^verbatim>\<open>62.99999999999999\<close>.
\<close>

definition ninety_tick_note :: note_properties where
  "ninety_tick_note = (NoteProperties 64 80 0 90 0 0)\<lparr> adjusted_duration := 62 \<rparr>"

text \<open>A note of 60 ticks and a context with articulation strength 1.0 at 480 ticks per beat.\<close>

definition sixty_tick_note :: note_properties where
  "sixty_tick_note = NoteProperties 72 80 0 60 0 0"

definition full_articulation :: interpretation_context where
  "full_articulation = InterpretationContext 480 0.5 0.6 1.0 0.7 0"

section \<open>Vocabulary for the phrase property\<close>

text \<open>
  A run of notes starts at index 0 or at an index where the loop closes a phrase; it is
  unbroken from \<open>a\<close> to \<open>b\<close> when the loop closes no phrase at the indices \<open>a+1, ..., b\<close>.
  \<open>closed_run\<close> describes the phrases registered inside the loop after the indices below
  \<open>k\<close> have been processed.
\<close>

definition run_start :: "int \<Rightarrow> note_properties list \<Rightarrow> nat \<Rightarrow> bool" where
  "run_start tpb s a = (a = 0 \<or> phrase_break tpb s a)"

definition unbroken :: "int \<Rightarrow> note_properties list \<Rightarrow> nat \<Rightarrow> nat \<Rightarrow> bool" where
  "unbroken tpb s a b = (\<forall>i. a < i \<and> i \<le> b \<longrightarrow> \<not> phrase_break tpb s i)"

definition closed_run :: "int \<Rightarrow> note_properties list \<Rightarrow> nat \<Rightarrow> phrase \<Rightarrow> bool" where
  "closed_run tpb s k p =
     (case p of (a, b, kind) \<Rightarrow>
        kind = ''standard'' \<and> a + 2 \<le> b \<and> b + 1 < k \<and> run_start tpb s a \<and> unbroken tpb s a b
        \<and> phrase_break tpb s (b + 1))"

text \<open>Two anchor points 40 beats apart with a value difference of 60.\<close>

definition forty_beats_apart :: "point list" where
  "forty_beats_apart = [(0, 60), (40, 120)]"

section \<open>Vocabulary for the frame property\<close>

text \<open>
  \<open>floor_checked tpb od\<close>: the validation pass reaches the comparison of the adjusted
  duration with \<^verbatim>\<open>min_duration\<close> for a note of original duration \<open>od\<close>.
  \<open>unadjusted\<close> erases the three adjusted fields of a note, so that two notes agree under
  it exactly when they agree on every other field; \<open>originals\<close> collects the fields
  captured from the input event. \<open>no_faults\<close> is a run without internal failures.
\<close>

definition floor_checked :: "int \<Rightarrow> int \<Rightarrow> bool" where
  "floor_checked tpb od =
     (tpb \<noteq> 0
      \<and> finite_double (double_round (real_of_int od / real_of_int tpb))
      \<and> double_round (real_of_int od / real_of_int tpb) \<le> 0.25
      \<and> \<not> floor_overflow tpb od)"

definition unadjusted :: "note_properties \<Rightarrow> note_properties" where
  "unadjusted n = n\<lparr> adjusted_start_time := 0, adjusted_duration := 0, adjusted_velocity := 0 \<rparr>"

definition originals :: "note_properties \<Rightarrow> int \<times> int \<times> int \<times> int \<times> int \<times> int" where
  "originals n = (pitch n, velocity n, original_start_time n, original_duration n, track n, channel n)"

definition no_faults :: faults where
  "no_faults = \<lparr> wave_fault = False, sine_fault = False, map_fault = False \<rparr>"

chapter \<open>Properties\<close>

section \<open>The safety validation pass\<close>

text \<open>What the pass does to one note that reaches the comparison with its floor.\<close>

lemma validate_note_checked:
  assumes "floor_checked tpb (original_duration n)"
  shows "validate_note tpb n =
     (n\<lparr> adjusted_duration := max (adjusted_duration n) (min_duration_of tpb (original_duration n)) \<rparr>,
      adjusted_duration n < min_duration_of tpb (original_duration n),
      adjusted_duration n < min_duration_of tpb (original_duration n)
        \<and> real_of_int (adjusted_duration n)
            < double_round (py_float (min_duration_of tpb (original_duration n)) * 0.5))"
proof (cases "adjusted_duration n < min_duration_of tpb (original_duration n)")
  case True
  then show ?thesis
    using assms unfolding validate_note_def floor_checked_def Let_def
    by (simp only: if_True if_False max_def simp_thms) simp
next
  case False
  then show ?thesis
    using assms unfolding validate_note_def floor_checked_def Let_def
    by (simp only: if_True if_False max_def simp_thms) simp
qed

text \<open>Any other note is left as it is.\<close>

lemma validate_note_unchecked:
  assumes "\<not> floor_checked tpb (original_duration n)"
  shows "validate_note tpb n = (n, False, False)"
  using assms unfolding validate_note_def floor_checked_def Let_def by auto

lemma validate_note_original:
  "original_duration (fst (validate_note tpb n)) = original_duration n"
  by (simp add: validate_note_def Let_def)

lemma validate_notes_member:
  "n' \<in> set (fst (validate_notes tpb ns)) \<Longrightarrow> \<exists>n \<in> set ns. n' = fst (validate_note tpb n)"
proof (induction ns arbitrary: n')
  case Nil
  then show ?case by simp
next
  case (Cons a ns)
  then show ?case by (auto split: prod.splits)
qed

lemma validate_voices_member:
  "v' \<in> set (fst (validate_voices tpb vs)) \<Longrightarrow>
     \<exists>v \<in> set vs. voice_notes v' = fst (validate_notes tpb (voice_notes v))"
proof (induction vs arbitrary: v')
  case Nil
  then show ?case by simp
next
  case (Cons a vs)
  then show ?case by (auto split: prod.splits)
qed

lemma voices_validate:
  "voices (validate_and_fix_note_durations I) = fst (validate_voices (interp_ticks_per_beat I) (voices I))"
  by (simp add: validate_and_fix_note_durations_def split: prod.splits)

lemma validate_notes_fst:
  "fst (validate_notes tpb ns) = map (\<lambda>n. fst (validate_note tpb n)) ns"
  by (induction ns) (auto split: prod.splits)

lemma validate_voices_fst:
  "fst (validate_voices tpb vs)
     = map (\<lambda>v. v\<lparr> voice_notes := fst (validate_notes tpb (voice_notes v)) \<rparr>) vs"
  by (induction vs) (auto split: prod.splits)

lemma validate_note_fixed:
  "validate_note tpb (fst (validate_note tpb n)) = (fst (validate_note tpb n), False, False)"
  by (simp add: validate_note_def Let_def)

lemma validate_notes_fixed:
  "validate_notes tpb (fst (validate_notes tpb ns)) = (fst (validate_notes tpb ns), 0, 0)"
proof (induction ns)
  case Nil
  show ?case by simp
next
  case (Cons n ns)
  obtain n' c k where n: "validate_note tpb n = (n', c, k)" by (cases "validate_note tpb n")
  obtain ns' cs ks where ns: "validate_notes tpb ns = (ns', cs, ks)" by (cases "validate_notes tpb ns")
  have "validate_note tpb n' = (n', False, False)" using validate_note_fixed[of tpb n] n by simp
  moreover have "validate_notes tpb ns' = (ns', 0, 0)" using Cons.IH ns by simp
  ultimately show ?case using n ns by simp
qed

lemma validate_voices_fixed:
  "validate_voices tpb (fst (validate_voices tpb vs)) = (fst (validate_voices tpb vs), 0, 0)"
proof (induction vs)
  case Nil
  show ?case by simp
next
  case (Cons v vs)
  obtain ns' c k where n: "validate_notes tpb (voice_notes v) = (ns', c, k)"
    by (cases "validate_notes tpb (voice_notes v)")
  obtain vs' cs ks where vs: "validate_voices tpb vs = (vs', cs, ks)" by (cases "validate_voices tpb vs")
  have "validate_notes tpb ns' = (ns', 0, 0)" using validate_notes_fixed[of tpb "voice_notes v"] n by simp
  moreover have "validate_voices tpb vs' = (vs', 0, 0)" using Cons.IH vs by simp
  ultimately show ?case using n vs by simp
qed

text \<open>The example notes at 480 ticks per beat, in double arithmetic.\<close>

lemma example_checks:
  "floor_checked 480 24" "floor_checked 480 90" "\<not> floor_checked 480 480"
  by code_simp+

lemma example_floors:
  "min_duration_of 480 24 = 21" "min_duration_of 480 90 = 62"
  by code_simp+

lemma example_half_floor: "real_of_int 10 < double_round (py_float 21 * 0.5)"
  by code_simp

lemma example_tpb: "interp_ticks_per_beat example_interpreter = 480"
  by (simp add: example_interpreter_def NoteLevelInterpreter_def)

lemma example_validated:
  "voices (validate_and_fix_note_durations example_interpreter) =
     [example_voice\<lparr> voice_notes :=
        [(NoteProperties 60 80 0 24 0 0)\<lparr> adjusted_duration := 21 \<rparr>,
         (NoteProperties 62 80 480 480 0 0)\<lparr> adjusted_duration := 100 \<rparr>] \<rparr>]"
proof -
  have a: "fst (validate_note 480 ((NoteProperties 60 80 0 24 0 0)\<lparr> adjusted_duration := 10 \<rparr>))
      = (NoteProperties 60 80 0 24 0 0)\<lparr> adjusted_duration := 21 \<rparr>"
    by (simp add: validate_note_checked NoteProperties_def example_checks example_floors)
  have b: "fst (validate_note 480 ((NoteProperties 62 80 480 480 0 0)\<lparr> adjusted_duration := 100 \<rparr>))
      = (NoteProperties 62 80 480 480 0 0)\<lparr> adjusted_duration := 100 \<rparr>"
    by (simp add: validate_note_unchecked NoteProperties_def example_checks)
  have v: "voices example_interpreter = [example_voice]"
    by (simp add: example_interpreter_def)
  have n: "voice_notes example_voice = short_then_long"
    by (simp add: example_voice_def)
  show ?thesis
    by (simp only: voices_validate example_tpb validate_voices_fst validate_notes_fst v n
          short_then_long_def list.map a b)
qed

text \<open>
  Claim C1, as the code has it. The pass compares the adjusted duration of a note with a
  floor when \<^verbatim>\<open>ticks_per_beat\<close> is not zero, the relative duration
  \<^verbatim>\<open>original_duration / ticks_per_beat\<close>, a double, is at most 0.25, and no conversion
  overflows (\<open>floor_checked\<close>). After the pass every such note of every voice has an
  adjusted duration of at least its floor. The pass sets the adjusted duration of such a
  note to the maximum of its old value and the floor, counts a correction when the old
  value was below the floor, and counts it as critical when the old value was also below
  half the floor. Every other note, in particular every note longer than a quarter of a
  beat, is left as it is. The floor is the maximum of 2, of
  \<^verbatim>\<open>int(ticks_per_beat * relative_duration * 0.5)\<close> and of
  \<^verbatim>\<open>int(original_duration * p)\<close>, each product rounded to a double before it is
  truncated, where \<open>p\<close> is the double nearest to 0.9 when the relative duration is at most
  0.0625, to 0.8 when it is at most 0.125 and to 0.7 otherwise.
\<close>

theorem validation_floor:
  "(\<forall>v \<in> set (voices (validate_and_fix_note_durations I)). \<forall>n \<in> set (voice_notes v).
       floor_checked (interp_ticks_per_beat I) (original_duration n) \<longrightarrow>
       min_duration_of (interp_ticks_per_beat I) (original_duration n) \<le> adjusted_duration n)
   \<and> (\<forall>n. floor_checked (interp_ticks_per_beat I) (original_duration n) \<longrightarrow>
          validate_note (interp_ticks_per_beat I) n =
            (n\<lparr> adjusted_duration :=
                  max (adjusted_duration n) (min_duration_of (interp_ticks_per_beat I) (original_duration n)) \<rparr>,
             adjusted_duration n < min_duration_of (interp_ticks_per_beat I) (original_duration n),
             adjusted_duration n < min_duration_of (interp_ticks_per_beat I) (original_duration n)
               \<and> real_of_int (adjusted_duration n)
                   < double_round (py_float (min_duration_of (interp_ticks_per_beat I) (original_duration n)) * 0.5)))
   \<and> (\<forall>n. \<not> floor_checked (interp_ticks_per_beat I) (original_duration n) \<longrightarrow>
          validate_note (interp_ticks_per_beat I) n = (n, False, False))
   \<and> (\<forall>od. floor_checked (interp_ticks_per_beat I) od \<longrightarrow>
          min_duration_of (interp_ticks_per_beat I) od =
            max (max 2 (py_int (double_round (double_round
                   (py_float (interp_ticks_per_beat I)
                      * double_round (real_of_int od / real_of_int (interp_ticks_per_beat I))) * 0.5))))
                (py_int (double_round (py_float od *
                   (if double_round (real_of_int od / real_of_int (interp_ticks_per_beat I)) \<le> 0.0625
                    then double_round 0.9
                    else if double_round (real_of_int od / real_of_int (interp_ticks_per_beat I)) \<le> 0.125
                    then double_round 0.8
                    else double_round 0.7)))))"
proof (intro conjI ballI allI impI)
  fix v :: voice and n :: note_properties
  assume v: "v \<in> set (voices (validate_and_fix_note_durations I))"
    and n: "n \<in> set (voice_notes v)"
    and checked: "floor_checked (interp_ticks_per_beat I) (original_duration n)"
  let ?tpb = "interp_ticks_per_beat I"
  from v have "v \<in> set (fst (validate_voices ?tpb (voices I)))"
    by (simp add: voices_validate)
  then have "\<exists>v0 \<in> set (voices I). voice_notes v = fst (validate_notes ?tpb (voice_notes v0))"
    by (rule validate_voices_member)
  then obtain v0 :: voice where v0: "voice_notes v = fst (validate_notes ?tpb (voice_notes v0))" ..
  from n v0 have "n \<in> set (fst (validate_notes ?tpb (voice_notes v0)))" by simp
  then have "\<exists>n0 \<in> set (voice_notes v0). n = fst (validate_note ?tpb n0)"
    by (rule validate_notes_member)
  then obtain n0 :: note_properties where n0: "n = fst (validate_note ?tpb n0)" ..
  have same: "original_duration n0 = original_duration n"
    unfolding n0 validate_note_original ..
  have c0: "floor_checked ?tpb (original_duration n0)" using checked same by simp
  have adj: "adjusted_duration n
      = max (adjusted_duration n0) (min_duration_of ?tpb (original_duration n0))"
    unfolding n0 validate_note_checked[OF c0] by simp
  show "min_duration_of ?tpb (original_duration n) \<le> adjusted_duration n"
    unfolding adj same[symmetric] by simp
next
  fix n :: note_properties
  assume "floor_checked (interp_ticks_per_beat I) (original_duration n)"
  then show "validate_note (interp_ticks_per_beat I) n =
            (n\<lparr> adjusted_duration :=
                  max (adjusted_duration n) (min_duration_of (interp_ticks_per_beat I) (original_duration n)) \<rparr>,
             adjusted_duration n < min_duration_of (interp_ticks_per_beat I) (original_duration n),
             adjusted_duration n < min_duration_of (interp_ticks_per_beat I) (original_duration n)
               \<and> real_of_int (adjusted_duration n)
                   < double_round (py_float (min_duration_of (interp_ticks_per_beat I) (original_duration n)) * 0.5))"
    by (rule validate_note_checked)
next
  fix n :: note_properties
  assume "\<not> floor_checked (interp_ticks_per_beat I) (original_duration n)"
  then show "validate_note (interp_ticks_per_beat I) n = (n, False, False)"
    by (rule validate_note_unchecked)
next
  fix od
  assume "floor_checked (interp_ticks_per_beat I) od"
  then have "double_round (real_of_int od / real_of_int (interp_ticks_per_beat I)) \<le> 0.25"
    unfolding floor_checked_def by (elim conjE)
  then show "min_duration_of (interp_ticks_per_beat I) od =
            max (max 2 (py_int (double_round (double_round
                   (py_float (interp_ticks_per_beat I)
                      * double_round (real_of_int od / real_of_int (interp_ticks_per_beat I))) * 0.5))))
                (py_int (double_round (py_float od *
                   (if double_round (real_of_int od / real_of_int (interp_ticks_per_beat I)) \<le> 0.0625
                    then double_round 0.9
                    else if double_round (real_of_int od / real_of_int (interp_ticks_per_beat I)) \<le> 0.125
                    then double_round 0.8
                    else double_round 0.7))))"
    unfolding min_duration_of_def min_percent_def Let_def by (simp only: if_True)
qed

theorem validation_floor_witness:
  "floor_checked (interp_ticks_per_beat example_interpreter)
     (original_duration (hd (voice_notes (hd (voices (validate_and_fix_note_durations example_interpreter))))))
   \<and> min_duration_of 480 24 = 21
   \<and> min_duration_of (interp_ticks_per_beat example_interpreter)
        (original_duration (hd (voice_notes (hd (voices (validate_and_fix_note_durations example_interpreter))))))
       \<le> adjusted_duration (hd (voice_notes (hd (voices (validate_and_fix_note_durations example_interpreter)))))
   \<and> adjusted_duration (hd (voice_notes (hd (voices (validate_and_fix_note_durations example_interpreter))))) = 21
   \<and> floor_checked (interp_ticks_per_beat example_interpreter) (original_duration ninety_tick_note)
   \<and> min_duration_of 480 90 = 62
   \<and> validate_note (interp_ticks_per_beat example_interpreter) ninety_tick_note
       = (ninety_tick_note, False, False)
   \<and> \<not> floor_checked (interp_ticks_per_beat example_interpreter)
          (original_duration (voice_notes (hd (voices example_interpreter)) ! 1))
   \<and> validate_note (interp_ticks_per_beat example_interpreter) (voice_notes (hd (voices example_interpreter)) ! 1)
       = (voice_notes (hd (voices example_interpreter)) ! 1, False, False)"
proof -
  let ?after = "validate_and_fix_note_durations example_interpreter"
  let ?long = "voice_notes (hd (voices example_interpreter)) ! 1"
  have v: "hd (voices ?after) \<in> set (voices ?after)"
    by (simp add: example_validated)
  have n: "hd (voice_notes (hd (voices ?after))) \<in> set (voice_notes (hd (voices ?after)))"
    by (simp add: example_validated)
  have od: "original_duration (hd (voice_notes (hd (voices ?after)))) = 24"
    by (simp add: example_validated NoteProperties_def)
  have c24: "floor_checked (interp_ticks_per_beat example_interpreter)
      (original_duration (hd (voice_notes (hd (voices ?after)))))"
    unfolding od example_tpb by (rule example_checks)
  have od90: "original_duration ninety_tick_note = 90" "adjusted_duration ninety_tick_note = 62"
    by (simp_all add: ninety_tick_note_def NoteProperties_def)
  have c90: "floor_checked (interp_ticks_per_beat example_interpreter) (original_duration ninety_tick_note)"
    unfolding od90 example_tpb by (rule example_checks)
  have odl: "original_duration ?long = 480"
    by (simp add: example_interpreter_def example_voice_def short_then_long_def NoteProperties_def)
  have cl: "\<not> floor_checked (interp_ticks_per_beat example_interpreter) (original_duration ?long)"
    unfolding odl example_tpb by (rule example_checks)
  have same: "ninety_tick_note\<lparr> adjusted_duration := 62 \<rparr> = ninety_tick_note"
    by (simp add: ninety_tick_note_def)
  have r24: "min_duration_of (interp_ticks_per_beat example_interpreter)
        (original_duration (hd (voice_notes (hd (voices ?after)))))
       \<le> adjusted_duration (hd (voice_notes (hd (voices ?after))))"
    using validation_floor[of example_interpreter, THEN conjunct1, rule_format, OF v n c24] .
  have r90: "validate_note (interp_ticks_per_beat example_interpreter) ninety_tick_note
       = (ninety_tick_note, False, False)"
    using validation_floor[of example_interpreter, THEN conjunct2, THEN conjunct1, rule_format, OF c90]
    unfolding od90 example_tpb example_floors by (simp add: same)
  have rl: "validate_note (interp_ticks_per_beat example_interpreter) ?long = (?long, False, False)"
    using validation_floor[of example_interpreter, THEN conjunct2, THEN conjunct2, THEN conjunct1,
        rule_format, OF cl] .
  have a24: "adjusted_duration (hd (voice_notes (hd (voices ?after)))) = 21"
    by (simp add: example_validated NoteProperties_def)
  show ?thesis
    using c24 example_floors r24 a24 c90 r90 cl rl by (intro conjI)
qed

text \<open>
  Claim C1 as stated fails on the example voice. The quarter note (480 ticks, cut to
  100) is longer than a quarter of a beat, so the pass does not look at it: it stays
  below 60 percent of its original duration, the floor the claim gives it. The note of
  24 ticks (1/20 of a beat) is raised to 21 ticks, which is not the floor of the tier
  the claim puts it in (above 1/32 beat, at most 1/16 beat: 80 percent, 19 ticks).
\<close>

theorem validation_floor_counterexample:
  "adjusted_duration (voice_notes (hd (voices (validate_and_fix_note_durations example_interpreter))) ! 1)
     < spec_floor (interp_ticks_per_beat example_interpreter)
         (original_duration (voice_notes (hd (voices (validate_and_fix_note_durations example_interpreter))) ! 1))
   \<and> adjusted_duration (voice_notes (hd (voices (validate_and_fix_note_durations example_interpreter))) ! 0)
     \<noteq> spec_floor (interp_ticks_per_beat example_interpreter)
         (original_duration (voice_notes (hd (voices (validate_and_fix_note_durations example_interpreter))) ! 0))"
  by (simp add: example_tpb example_validated NoteProperties_def spec_floor_def spec_min_percent_def py_int_def)

text \<open>
  Claim C7. The safety validation pass is idempotent: a second run returns the
  interpreter state of the first run unchanged, and its loop over the voices counts no
  correction and no critical correction.
\<close>

theorem validation_idempotent:
  "validate_and_fix_note_durations (validate_and_fix_note_durations I) = validate_and_fix_note_durations I
   \<and> validate_voices (interp_ticks_per_beat I) (voices (validate_and_fix_note_durations I))
       = (voices (validate_and_fix_note_durations I), 0, 0)"
proof -
  obtain vs' c k where vs: "validate_voices (interp_ticks_per_beat I) (voices I) = (vs', c, k)"
    by (cases "validate_voices (interp_ticks_per_beat I) (voices I)")
  have again: "validate_voices (interp_ticks_per_beat I) vs' = (vs', 0, 0)"
    using validate_voices_fixed[of "interp_ticks_per_beat I" "voices I"] vs by simp
  show ?thesis using vs again by (simp add: validate_and_fix_note_durations_def)
qed

section \<open>The short-note rule on a note of 60 ticks\<close>

lemma short_note_defaults:
  "params (new_rule ShortNoteRule) ''short_reduction'' = 0.08"
  "params (new_rule ShortNoteRule) ''very_short_reduction'' = 0.05"
  "params (new_rule ShortNoteRule) ''velocity_increase'' = 0.06"
  "params (new_rule ShortNoteRule) ''very_short_threshold'' = 0.0625"
  "params (new_rule ShortNoteRule) ''short_threshold'' = 0.125"
  by (simp_all add: new_rule_def default_params_def dict_get_def)

lemma sixty_tick_facts:
  "original_duration sixty_tick_note = 60" "adjusted_duration sixty_tick_note = 60"
  "ticks_per_beat full_articulation = 480" "articulation_strength full_articulation = 1"
  by (simp_all add: sixty_tick_note_def full_articulation_def NoteProperties_def InterpretationContext_def)

text \<open>
  Claim C3, as the code has it. For a note with original and adjusted duration 60 ticks
  at 480 ticks per beat, \<^verbatim>\<open>ShortNoteRule\<close> with default parameters and articulation
  strength 1.0 computes the relative duration 0.125, which lies above
  \<^verbatim>\<open>very_short_threshold\<close> and is not above \<^verbatim>\<open>short_threshold\<close>: the sixteenth-note
  branch is taken, with reduction factor 1 - 0.08 * 1.0 = 0.92, and the adjusted duration
  becomes \<^verbatim>\<open>int(60 * 0.92)\<close> = 55 (truncated, and above the minimum of 30 ticks).
\<close>

theorem short_note_rule_scenario:
  fixes n :: note_properties and c :: interpretation_context
  assumes "original_duration n = 60" and "adjusted_duration n = 60"
    and "ticks_per_beat c = 480" and "articulation_strength c = 1"
  shows "real_of_int (original_duration n) / real_of_int (ticks_per_beat c) = 0.125
       \<and> params (new_rule ShortNoteRule) ''very_short_threshold'' < 0.125
       \<and> 0.125 \<le> params (new_rule ShortNoteRule) ''short_threshold''
       \<and> 1.0 - params (new_rule ShortNoteRule) ''short_reduction'' * articulation_strength c = 0.92
       \<and> ShortNoteRule_apply (new_rule ShortNoteRule) [n] 0 c =
            ([n\<lparr> adjusted_duration := py_int (60 * 0.92),
                  adjusted_velocity :=
                    min 127 (py_int (real_of_int (velocity n) * (1 + 0.06 * dynamics_strength c))) \<rparr>],
             Applied)
       \<and> py_int (60 * 0.92) = 55"
  using assms
  by (simp add: short_note_defaults ShortNoteRule_apply_def update_note_def Let_def py_int_def)

theorem short_note_rule_scenario_witness:
  "original_duration sixty_tick_note = 60 \<and> adjusted_duration sixty_tick_note = 60
   \<and> ticks_per_beat full_articulation = 480 \<and> articulation_strength full_articulation = 1
   \<and> adjusted_duration (hd (fst (ShortNoteRule_apply (new_rule ShortNoteRule) [sixty_tick_note] 0 full_articulation))) = 55"
  using short_note_rule_scenario[of sixty_tick_note full_articulation]
  by (simp add: sixty_tick_facts)

text \<open>
  Claim C3 as stated fails: on this note the rule does not give
  \<^verbatim>\<open>round(60 * 0.94)\<close> = 56.
\<close>

theorem short_note_rule_counterexample:
  "adjusted_duration (hd (fst (ShortNoteRule_apply (new_rule ShortNoteRule) [sixty_tick_note] 0 full_articulation)))
     \<noteq> py_round (60 * 0.94)"
  by (simp add: short_note_defaults ShortNoteRule_apply_def update_note_def Let_def py_int_def
        py_round_def sixty_tick_note_def full_articulation_def NoteProperties_def InterpretationContext_def)

section \<open>The default structure\<close>

text \<open>
  Claim C4, as the code has it. With no voices, \<^verbatim>\<open>analyze_structure\<close> builds a structure
  of 16 measures with the phrase boundaries (0, 7) and (8, 15), cadences at measures 7
  and 15 with gravity strength 0.6, and gravity centers with strength 0.3 at measures 4
  and 12 (\<^verbatim>\<open>mid = i + 4\<close>).
\<close>

theorem default_structure_zero_voices:
  "measure_count (analyze_structure [] c) = 16
   \<and> phrase_boundaries (analyze_structure [] c) = [(0, 7), (8, 15)]
   \<and> cadences (analyze_structure [] c) = [7, 15]
   \<and> gravity_centers (analyze_structure [] c) = [(7, 0.6), (4, 0.3), (15, 0.6), (12, 0.3)]"
  by (simp add: analyze_structure_def create_default_structure_def range8_def default_phrase_def upt_rec Let_def)

text \<open>
  Claim C4 as stated fails: with the constructor's default arguments the measures 3 and
  11 are no gravity centers of strength 0.3.
\<close>

theorem default_structure_counterexample:
  "map_of (gravity_centers (analyze_structure [] (OrchestralConductor 0.7 0.8 1.0))) 3 \<noteq> Some 0.3
   \<and> map_of (gravity_centers (analyze_structure [] (OrchestralConductor 0.7 0.8 1.0))) 11 \<noteq> Some 0.3"
  by (simp add: analyze_structure_def create_default_structure_def range8_def default_phrase_def upt_rec Let_def)

section \<open>The choice of the rule set\<close>

lemma register_rule_keys: "map fst (rule_sets (register_rule voice_type r rm)) = map fst (rule_sets rm)"
proof -
  have k: "map_of d k = Some old \<Longrightarrow> map fst (dict_set d k v) = map fst d" for d :: "(string \<times> interpretation_rule list) list" and k old v
    by (induction d) (auto split: if_splits)
  show ?thesis by (auto simp: register_rule_def k split: option.splits)
qed

lemma default_rule_set_keys:
  "map fst (rule_sets (load_default_rules RuleManager)) = [''melody'', ''bass'', ''inner'']"
  by (simp add: load_default_rules_def RuleManager_def register_rule_def)

lemma default_melody_rules:
  "map_of (rule_sets (load_default_rules RuleManager)) ''melody'' =
     Some (map new_rule [PhraseStartRule, PhraseEndRule, PreLeapRule, LocalPeakRule, DownbeatRule,
                         ShortNoteRule, LongNoteRule, AccelerandoRule, SequenceAccelerationRule,
                         DirectionalRule])"
  by (simp add: load_default_rules_def RuleManager_def register_rule_def)

text \<open>
  Claim C10. A voice whose role is neither \<^verbatim>\<open>"bass"\<close> nor \<^verbatim>\<open>"inner_voice"\<close>, such as
  one left at \<^verbatim>\<open>"unknown"\<close>, gets the voice type \<^verbatim>\<open>"melody"\<close>: both
  \<^verbatim>\<open>_interpret_voice\<close> and \<^verbatim>\<open>RuleManager.apply_rules\<close> treat it exactly as they treat
  the same voice with role \<^verbatim>\<open>"melody"\<close>. The rule manager of a new interpreter has the
  three rule sets melody, bass and inner and no other; the voice is given the ten melody
  rules, and a rule registered under \<^verbatim>\<open>"unknown"\<close> is refused.
\<close>

theorem unrecognized_role_uses_melody_rules:
  fixes v :: voice and I :: interpreter and rm :: rule_manager
  assumes "role v \<noteq> ''bass''" and "role v \<noteq> ''inner_voice''"
  shows "voice_type_of (role v) = ''melody''
       \<and> interpret_voice I v rng pos =
           (case interpret_voice I (v\<lparr> role := ''melody'' \<rparr>) rng pos of
              (I', v', pos') \<Rightarrow> (I', v'\<lparr> role := role v \<rparr>, pos'))
       \<and> apply_rules rm v c rng pos =
           (case apply_rules rm (v\<lparr> role := ''melody'' \<rparr>) c rng pos of
              (rm', v', pos', k) \<Rightarrow> (rm', v'\<lparr> role := role v \<rparr>, pos', k))
       \<and> map fst (rule_sets (rule_manager (NoteLevelInterpreter e r a d))) = [''melody'', ''bass'', ''inner'']
       \<and> map_of (rule_sets (rule_manager (NoteLevelInterpreter e r a d))) (voice_type_of (role v)) =
           Some (map new_rule [PhraseStartRule, PhraseEndRule, PreLeapRule, LocalPeakRule, DownbeatRule,
                               ShortNoteRule, LongNoteRule, AccelerandoRule, SequenceAccelerationRule,
                               DirectionalRule])
       \<and> register_rule ''unknown'' x (rule_manager (NoteLevelInterpreter e r a d))
           = rule_manager (NoteLevelInterpreter e r a d)"
proof -
  have vt: "voice_type_of (role v) = ''melody''" using assms by (simp add: voice_type_of_def)
  have vt': "voice_type_of ''melody'' = ''melody''" by (simp add: voice_type_of_def)
  have iv: "interpret_voice I v rng pos =
           (case interpret_voice I (v\<lparr> role := ''melody'' \<rparr>) rng pos of
              (I', v', pos') \<Rightarrow> (I', v'\<lparr> role := role v \<rparr>, pos'))"
    by (simp add: interpret_voice_def vt vt' Let_def split: prod.splits)
  have ar: "apply_rules rm v c rng pos =
           (case apply_rules rm (v\<lparr> role := ''melody'' \<rparr>) c rng pos of
              (rm', v', pos', k) \<Rightarrow> (rm', v'\<lparr> role := role v \<rparr>, pos', k))"
    by (simp add: apply_rules_def vt vt' Let_def split: prod.splits option.splits)
  have rmg: "rule_manager (NoteLevelInterpreter e r a d) = load_default_rules RuleManager"
    by (simp add: NoteLevelInterpreter_def)
  have unk: "map_of (rule_sets (load_default_rules RuleManager)) ''unknown'' = None"
    by (simp add: load_default_rules_def RuleManager_def register_rule_def)
  show ?thesis
    unfolding rmg using vt iv ar default_rule_set_keys default_melody_rules unk
    by (simp add: register_rule_def)
qed

theorem unrecognized_role_uses_melody_rules_witness:
  "role (MusicalVoice 0 0) \<noteq> ''bass'' \<and> role (MusicalVoice 0 0) \<noteq> ''inner_voice''
   \<and> role (MusicalVoice 0 0) = ''unknown''
   \<and> voice_type_of (role (MusicalVoice 0 0)) = ''melody''"
  using unrecognized_role_uses_melody_rules[of "MusicalVoice 0 0"]
  by (simp add: MusicalVoice_def)

section \<open>Phrase detection\<close>

lemma run_start_unique:
  assumes "run_start tpb s a" "unbroken tpb s a b" "run_start tpb s a'" "unbroken tpb s a' b"
    and "a \<le> b" "a' \<le> b"
  shows "a = a'"
proof (rule ccontr)
  assume ne: "a \<noteq> a'"
  show False
  proof (cases "a < a'")
    case True
    then have "phrase_break tpb s a'" using assms(3) by (simp add: run_start_def)
    moreover have "\<not> phrase_break tpb s a'" using assms(2) True assms(6) by (simp add: unbroken_def)
    ultimately show False by simp
  next
    case False
    then have lt: "a' < a" using ne by simp
    then have "phrase_break tpb s a" using assms(1) by (simp add: run_start_def)
    moreover have "\<not> phrase_break tpb s a" using assms(4) lt assms(5) by (simp add: unbroken_def)
    ultimately show False by simp
  qed
qed

lemma detect_loop_Suc:
  "1 \<le> k \<Longrightarrow> detect_loop tpb s (Suc k) phs = detect_step tpb s k (detect_loop tpb s k phs)"
  by (simp add: detect_loop_def)

lemma detect_loop_inv:
  assumes "1 \<le> k"
  shows "fst (detect_loop tpb s k []) < k
       \<and> run_start tpb s (fst (detect_loop tpb s k []))
       \<and> unbroken tpb s (fst (detect_loop tpb s k [])) (k - 1)
       \<and> (\<forall>p. p \<in> set (snd (detect_loop tpb s k [])) \<longleftrightarrow> closed_run tpb s k p)"
  using assms
proof (induction k rule: dec_induct)
  case base
  show ?case by (auto simp: detect_loop_def run_start_def unbroken_def closed_run_def)
next
  case (step k)
  obtain st phs where l: "detect_loop tpb s k [] = (st, phs)" by (cases "detect_loop tpb s k []")
  from step.IH have ih: "st < k \<and> run_start tpb s st \<and> unbroken tpb s st (k - 1)
      \<and> (\<forall>p. p \<in> set phs \<longleftrightarrow> closed_run tpb s k p)"
    unfolding l fst_conv snd_conv .
  then have st: "st < k" and rs: "run_start tpb s st" and ub: "unbroken tpb s st (k - 1)"
    and mem: "\<And>p. p \<in> set phs \<longleftrightarrow> closed_run tpb s k p" by blast+
  have k1: "1 \<le> k" using step.hyps by simp
  show ?case
  proof (cases "phrase_break tpb s k")
    case False
    have l': "detect_loop tpb s (Suc k) [] = (st, phs)"
      using False l by (simp add: detect_loop_Suc[OF k1] detect_step_def)
    have ub': "unbroken tpb s st k"
      unfolding unbroken_def
    proof (intro allI impI)
      fix i assume i: "st < i \<and> i \<le> k"
      show "\<not> phrase_break tpb s i"
      proof (cases "i = k")
        case True then show ?thesis using False by simp
      next
        case False
        then have "st < i \<and> i \<le> k - 1" using i by auto
        then show ?thesis using ub by (simp add: unbroken_def)
      qed
    qed
    have mem': "p \<in> set phs \<longleftrightarrow> closed_run tpb s (Suc k) p" for p
    proof -
      obtain a b kind where p: "p = (a, b, kind)" by (cases p)
      have "closed_run tpb s (Suc k) p \<longleftrightarrow> closed_run tpb s k p"
      proof
        assume c: "closed_run tpb s (Suc k) p"
        then have "b + 1 \<noteq> k" using False p by (auto simp: closed_run_def)
        then show "closed_run tpb s k p" using c p by (auto simp: closed_run_def)
      next
        assume "closed_run tpb s k p"
        then show "closed_run tpb s (Suc k) p" using p by (auto simp: closed_run_def)
      qed
      then show ?thesis using mem by simp
    qed
    show ?thesis unfolding l' fst_conv snd_conv using st rs ub' mem' by simp
  next
    case True
    let ?phs' = "if k - st > 2 then phs @ [(st, k - 1, ''standard'')] else phs"
    have l': "detect_loop tpb s (Suc k) [] = (k, ?phs')"
      using True l by (simp add: detect_loop_Suc[OF k1] detect_step_def)
    have rs': "run_start tpb s k" using True by (simp add: run_start_def)
    have ub': "unbroken tpb s k k" by (auto simp: unbroken_def)
    have mem': "p \<in> set ?phs' \<longleftrightarrow> closed_run tpb s (Suc k) p" for p
    proof -
      obtain a b kind where p: "p = (a, b, kind)" by (cases p)
      show ?thesis
      proof
        assume "p \<in> set ?phs'"
        then consider "p \<in> set phs" | "k - st > 2" "p = (st, k - 1, ''standard'')"
          by (auto split: if_splits)
        then show "closed_run tpb s (Suc k) p"
        proof cases
          case 1
          then have "closed_run tpb s k p" using mem by simp
          then show ?thesis using p by (auto simp: closed_run_def)
        next
          case 2
          then show ?thesis using rs ub True st by (auto simp: closed_run_def)
        qed
      next
        assume c: "closed_run tpb s (Suc k) p"
        show "p \<in> set ?phs'"
        proof (cases "b + 1 = k")
          case False
          then have "closed_run tpb s k p" using c p by (auto simp: closed_run_def)
          then show ?thesis using mem by simp
        next
          case bk: True
          from c p have kind: "kind = ''standard''" and len: "a + 2 \<le> b"
            and ra: "run_start tpb s a" and ua: "unbroken tpb s a b"
            by (auto simp: closed_run_def)
          have ub2: "unbroken tpb s st b" using ub bk by auto
          have "a = st"
            by (rule run_start_unique[OF ra ua rs ub2]) (use len st bk in auto)
          then show ?thesis using kind len bk p by auto
        qed
      qed
    qed
    show ?thesis unfolding l' fst_conv snd_conv using rs' ub' mem' by simp
  qed
qed

lemma phrase_break_criteria:
  "phrase_break tpb s i \<longleftrightarrow>
     original_start_time (s ! i) - (original_start_time (s ! (i - 1)) + original_duration (s ! (i - 1))) > tpb
     \<or> original_duration (s ! (i - 1)) > tpb * 2
     \<or> \<bar>pitch (s ! i) - pitch (s ! (i - 1))\<bar> > 7"
  by (simp add: phrase_break_def is_gap_def is_long_note_def is_large_interval_def Let_def)

lemma five_quarters_nth:
  "length five_quarters = 5"
  "five_quarters ! 0 = NoteProperties 60 80 0 480 0 0"
  "five_quarters ! 1 = NoteProperties 60 80 480 480 0 0"
  "five_quarters ! Suc 0 = NoteProperties 60 80 480 480 0 0"
  "five_quarters ! 2 = NoteProperties 60 80 960 480 0 0"
  "five_quarters ! 3 = NoteProperties 60 80 1440 480 0 0"
  "five_quarters ! 4 = NoteProperties 60 80 1920 480 0 0"
  by (simp_all add: five_quarters_def)

lemma five_quarters_sorted: "sort_key original_start_time five_quarters = five_quarters"
  by (rule sort_key_id_if_sorted) (simp add: five_quarters_def NoteProperties_def)


lemma five_quarters_no_break:
  "\<not> phrase_break 480 five_quarters (Suc 0)" "\<not> phrase_break 480 five_quarters 2"
  "\<not> phrase_break 480 five_quarters 3" "\<not> phrase_break 480 five_quarters 4"
  by (simp_all add: phrase_break_def is_gap_def is_long_note_def is_large_interval_def
        five_quarters_nth NoteProperties_def)

lemma upt_1_5: "[1..<5] = [Suc 0, 2, 3, 4::nat]"
  by (simp add: upt_rec)

lemma five_quarters_phrases: "detect_phrases_from 480 five_quarters [] = [(0, 4, ''final'')]"
proof -
  have "five_quarters \<noteq> []" using five_quarters_nth(1) by auto
  then show ?thesis
    unfolding detect_phrases_from_def five_quarters_sorted Let_def detect_loop_def five_quarters_nth(1) upt_1_5
    by (simp add: detect_step_def five_quarters_no_break)
qed

lemma five_quarters_downbeat:
  "downbeat_at 480 (original_start_time (five_quarters ! 4)) = Some True"
  by (simp add: downbeat_at_def five_quarters_nth NoteProperties_def)

lemma five_quarters_spec_phrases:
  "spec_detect_phrases_from 480 five_quarters [] = [(0, 3, ''standard'')]"
proof -
  have "five_quarters \<noteq> []" using five_quarters_nth(1) by auto
  then show ?thesis
    unfolding spec_detect_phrases_from_def five_quarters_sorted Let_def five_quarters_nth(1) upt_1_5
    by (simp add: spec_detect_step_def spec_phrase_break_def five_quarters_no_break five_quarters_downbeat)
qed

text \<open>
  Claim C2, as the code has it. Phrase detection scans the notes in start-time order
  (a stable sort of the voice's notes) and closes the current phrase at index \<open>i\<close> exactly
  when the gap from the previous note's end exceeds one beat, or the previous note's
  duration exceeds two beats, or the interval to the previous note exceeds 7 semitones;
  there is no test of the phrase length or of downbeats. The registered phrases are
  exactly the maximal runs without such a break that have at least 3 notes: a run that
  is followed by a break has kind \<^verbatim>\<open>"standard"\<close>, the run that ends with the last note
  has kind \<^verbatim>\<open>"final"\<close>.
\<close>

theorem phrase_detection:
  fixes ns :: "note_properties list"
  assumes "ns \<noteq> []"
  shows "sorted (map original_start_time (sort_key original_start_time ns))
       \<and> length (sort_key original_start_time ns) = length ns
       \<and> set (sort_key original_start_time ns) = set ns
       \<and> (\<forall>i. phrase_break tpb (sort_key original_start_time ns) i \<longleftrightarrow>
              original_start_time (sort_key original_start_time ns ! i)
                - (original_start_time (sort_key original_start_time ns ! (i - 1))
                   + original_duration (sort_key original_start_time ns ! (i - 1))) > tpb
              \<or> original_duration (sort_key original_start_time ns ! (i - 1)) > tpb * 2
              \<or> \<bar>pitch (sort_key original_start_time ns ! i)
                   - pitch (sort_key original_start_time ns ! (i - 1))\<bar> > 7)
       \<and> (\<forall>a b kind.
             (a, b, kind) \<in> set (detect_phrases_from tpb ns []) \<longleftrightarrow>
               a + 2 \<le> b \<and> b < length ns
               \<and> (a = 0 \<or> phrase_break tpb (sort_key original_start_time ns) a)
               \<and> (\<forall>i. a < i \<and> i \<le> b \<longrightarrow> \<not> phrase_break tpb (sort_key original_start_time ns) i)
               \<and> (kind = ''standard'' \<and> b + 1 < length ns
                      \<and> phrase_break tpb (sort_key original_start_time ns) (b + 1)
                   \<or> kind = ''final'' \<and> b + 1 = length ns))"
proof -
  let ?s = "sort_key original_start_time ns"
  let ?n = "length ?s"
  have n: "?n = length ns" by simp
  have n1: "1 \<le> ?n" using assms by (cases ns) simp_all
  obtain st phs where l: "detect_loop tpb ?s ?n [] = (st, phs)" by (cases "detect_loop tpb ?s ?n []")
  from detect_loop_inv[OF n1, of tpb ?s]
  have inv: "st < ?n \<and> run_start tpb ?s st \<and> unbroken tpb ?s st (?n - 1)
      \<and> (\<forall>p. p \<in> set phs \<longleftrightarrow> closed_run tpb ?s ?n p)"
    unfolding l fst_conv snd_conv .
  then have st: "st < ?n" and rs: "run_start tpb ?s st" and ub: "unbroken tpb ?s st (?n - 1)"
    and mem: "\<And>p. p \<in> set phs \<longleftrightarrow> closed_run tpb ?s ?n p" by blast+
  have res: "detect_phrases_from tpb ns [] =
      (if ?n - st > 2 then phs @ [(st, ?n - 1, ''final'')] else phs)"
    using assms l by (simp add: detect_phrases_from_def Let_def)
  have main: "(a, b, kind) \<in> set (detect_phrases_from tpb ns []) \<longleftrightarrow>
               a + 2 \<le> b \<and> b < length ns
               \<and> (a = 0 \<or> phrase_break tpb ?s a)
               \<and> (\<forall>i. a < i \<and> i \<le> b \<longrightarrow> \<not> phrase_break tpb ?s i)
               \<and> (kind = ''standard'' \<and> b + 1 < length ns \<and> phrase_break tpb ?s (b + 1)
                   \<or> kind = ''final'' \<and> b + 1 = length ns)" (is "?L \<longleftrightarrow> ?R") for a b kind
  proof
    assume ?L
    then consider "(a, b, kind) \<in> set phs" | "?n - st > 2" "(a, b, kind) = (st, ?n - 1, ''final'')"
      unfolding res by (auto split: if_splits)
    then show ?R
    proof cases
      case 1
      then have "closed_run tpb ?s ?n (a, b, kind)" using mem by simp
      then show ?thesis by (auto simp: closed_run_def run_start_def unbroken_def)
    next
      case 2
      then have ab: "a = st" "b = ?n - 1" "kind = ''final''" by simp_all
      show ?thesis using 2(1) rs ub unfolding ab by (auto simp: run_start_def unbroken_def)
    qed
  next
    assume r: ?R
    then have len: "a + 2 \<le> b" and ra: "run_start tpb ?s a" and ua: "unbroken tpb ?s a b"
      by (auto simp: run_start_def unbroken_def)
    from r consider "kind = ''standard''" "b + 1 < length ns" "phrase_break tpb ?s (b + 1)"
      | "kind = ''final''" "b + 1 = length ns" by blast
    then show ?L
    proof cases
      case 1
      then have "closed_run tpb ?s ?n (a, b, kind)" using len ra ua by (simp add: closed_run_def)
      then have "(a, b, kind) \<in> set phs" using mem by simp
      then show ?thesis unfolding res by simp
    next
      case 2
      then have b: "b = ?n - 1" by simp
      have ub2: "unbroken tpb ?s st b" using ub b by simp
      have "a = st" by (rule run_start_unique[OF ra ua rs ub2]) (use len st b in auto)
      then show ?thesis unfolding res using 2 len b by auto
    qed
  qed
  show ?thesis
    using main phrase_break_criteria[of tpb ?s] by (simp add: sorted_sort_key)
qed

theorem phrase_detection_witness:
  "five_quarters \<noteq> [] \<and> (0, 4, ''final'') \<in> set (detect_phrases_from 480 five_quarters [])
   \<and> 4 + 1 = length five_quarters
   \<and> \<not> phrase_break 480 (sort_key original_start_time five_quarters) 4"
proof -
  have ne: "five_quarters \<noteq> []" using five_quarters_nth(1) by auto
  have "(0, 4, ''final'') \<in> set (detect_phrases_from 480 five_quarters [])"
    by (simp add: five_quarters_phrases)
  then have "\<forall>i. 0 < i \<and> i \<le> 4 \<longrightarrow> \<not> phrase_break 480 (sort_key original_start_time five_quarters) i"
    using phrase_detection[OF ne, of 480] by blast
  then show ?thesis using ne five_quarters_phrases five_quarters_nth(1) by simp
qed

text \<open>
  Claim C2 as stated fails on five consecutive quarter notes of one pitch: the fifth
  note lands on the downbeat of the second measure when the phrase has four notes, so
  the rule of the claim closes a phrase of four notes there; the code registers one
  final phrase of five notes.
\<close>

theorem phrase_detection_counterexample:
  "detect_phrases_from 480 five_quarters [] = [(0, 4, ''final'')]
   \<and> spec_detect_phrases_from 480 five_quarters [] = [(0, 3, ''standard'')]"
  using five_quarters_phrases five_quarters_spec_phrases by simp

section \<open>Midpoints between distant anchor points\<close>

lemma concat_single:
  assumes "\<And>j. j \<in> set js \<Longrightarrow> j \<noteq> i \<Longrightarrow> h j = []" and "distinct js" and "i \<in> set js"
  shows "concat (map h js) = h i"
  using assms
proof (induction js)
  case Nil
  then show ?case by simp
next
  case (Cons j js)
  show ?case
  proof (cases "j = i")
    case True
    then have "i \<notin> set js" using Cons.prems(2) by simp
    then have "\<And>k. k \<in> set js \<Longrightarrow> h k = []" using Cons.prems(1) by auto
    then have "concat (map h js) = []" by simp
    then show ?thesis using True by simp
  next
    case False
    then have "h j = []" using Cons.prems(1) by simp
    moreover have "concat (map h js) = h i"
      using Cons.IH Cons.prems False by auto
    ultimately show ?thesis by simp
  qed
qed

lemma midpoint_between:
  assumes "fst q - fst p > 8"
  shows "fst p < fst (midpoint_of p q) \<and> fst (midpoint_of p q) < fst q"
  using assms by (cases p; cases q) (simp add: midpoint_of_def field_simps)

lemma midpoint_value:
  "midpoint_of p q = ((fst p + fst q) / 2, py_int (real_of_int (snd p + snd q) / 2))"
  by (cases p; cases q) (simp add: midpoint_of_def field_simps)

lemma py_int_half_exact:
  "even k \<Longrightarrow> real_of_int (py_int (real_of_int k / 2)) = real_of_int k / 2"
  by (auto simp: py_int_def elim!: evenE)

lemma py_int_close: "\<bar>real_of_int (py_int x) - x\<bar> < 1"
proof (cases "0 \<le> x")
  case True
  then show ?thesis by (simp add: py_int_def) linarith
next
  case False
  then show ?thesis by (simp add: py_int_def) linarith
qed

lemma length_concat_if:
  "length (concat (map (\<lambda>j. if w j then [g j] else []) js)) = length (filter w js)"
  by (induction js) simp_all

lemma forty_sorted: "sort_key fst forty_beats_apart = forty_beats_apart"
  by (rule sort_key_id_if_sorted) (simp add: forty_beats_apart_def)

lemma forty_result: "add_contour_points forty_beats_apart = [(0, 60), (20, 90), (40, 120)]"
  unfolding add_contour_points_def forty_sorted Let_def
  by (simp add: forty_beats_apart_def interpolated_points_def midpoint_of_def py_int_def)

text \<open>
  Claim C9. Let \<open>pts\<close> be the filtered point list of a voice in time order and let
  \<open>pts ! (i - 1)\<close>, \<open>pts ! i\<close> be an adjacent pair. In the result of step 4 the points
  that lie strictly between the two in time are: exactly one point when the time gap
  exceeds 8 beats, positioned at the temporal midpoint and carrying the linearly
  interpolated middle value as an integer (\<^verbatim>\<open>int\<close> of the mean of the two values: less
  than 1 away from the mean, and equal to it when the sum of the two values is even);
  no point otherwise. The step adds one point per adjacent pair with a gap above 8
  beats and nothing else.
\<close>

theorem one_midpoint_per_wide_gap:
  fixes filtered_points :: "point list"
  assumes "pts = sort_key fst filtered_points" and "1 \<le> i" and "i < length pts"
  shows "filter (\<lambda>q. fst (pts ! (i - 1)) < fst q \<and> fst q < fst (pts ! i)) (add_contour_points filtered_points)
         = (if fst (pts ! i) - fst (pts ! (i - 1)) > 8
            then [((fst (pts ! (i - 1)) + fst (pts ! i)) / 2,
                   py_int (real_of_int (snd (pts ! (i - 1)) + snd (pts ! i)) / 2))]
            else [])
       \<and> \<bar>real_of_int (py_int (real_of_int (snd (pts ! (i - 1)) + snd (pts ! i)) / 2))
            - real_of_int (snd (pts ! (i - 1)) + snd (pts ! i)) / 2\<bar> < 1
       \<and> (even (snd (pts ! (i - 1)) + snd (pts ! i)) \<longrightarrow>
            real_of_int (py_int (real_of_int (snd (pts ! (i - 1)) + snd (pts ! i)) / 2))
              = real_of_int (snd (pts ! (i - 1)) + snd (pts ! i)) / 2)
       \<and> length (add_contour_points filtered_points)
            = length filtered_points
              + length (filter (\<lambda>j. fst (pts ! j) - fst (pts ! (j - 1)) > 8) [1..<length pts])"
proof -
  let ?P = "\<lambda>q::point. fst (pts ! (i - 1)) < fst q \<and> fst q < fst (pts ! i)"
  let ?h = "\<lambda>j. if fst (pts ! j) - fst (pts ! (j - 1)) > 8 then [midpoint_of (pts ! (j - 1)) (pts ! j)] else []"
  have srt: "sorted (map fst pts)" using assms(1) by (simp add: sorted_sort_key)
  have mono: "a \<le> b \<Longrightarrow> b < length pts \<Longrightarrow> fst (pts ! a) \<le> fst (pts ! b)" for a b
    using sorted_nth_mono[OF srt, of a b] by simp
  have none: "filter ?P pts = []"
  proof -
    have "\<not> ?P q" if "q \<in> set pts" for q
    proof -
      from that obtain j where j: "j < length pts" "q = pts ! j" by (auto simp: in_set_conv_nth)
      show ?thesis
      proof (cases "j \<le> i - 1")
        case True
        then have "fst q \<le> fst (pts ! (i - 1))" using mono[of j "i - 1"] j assms by simp
        then show ?thesis by simp
      next
        case False
        then have "i \<le> j" using assms(2) by simp
        then have "fst (pts ! i) \<le> fst q" using mono[of i j] j by simp
        then show ?thesis by simp
      qed
    qed
    then show ?thesis by (simp add: filter_empty_conv)
  qed
  have others: "filter ?P (?h j) = []" if "j \<in> set [1..<length pts]" "j \<noteq> i" for j
  proof (cases "fst (pts ! j) - fst (pts ! (j - 1)) > 8")
    case False
    then show ?thesis by simp
  next
    case True
    note between = midpoint_between[OF True]
    have j: "1 \<le> j" "j < length pts" using that by simp_all
    show ?thesis
    proof (cases "j < i")
      case True
      then have "fst (pts ! j) \<le> fst (pts ! (i - 1))" using mono[of j "i - 1"] assms by simp
      then have "\<not> ?P (midpoint_of (pts ! (j - 1)) (pts ! j))" using between by simp
      then show ?thesis using \<open>8 < fst (pts ! j) - fst (pts ! (j - 1))\<close> by simp
    next
      case False
      then have "i \<le> j - 1" using that(2) by simp
      then have "fst (pts ! i) \<le> fst (pts ! (j - 1))" using mono[of i "j - 1"] j by simp
      then have "\<not> ?P (midpoint_of (pts ! (j - 1)) (pts ! j))" using between by simp
      then show ?thesis using \<open>8 < fst (pts ! j) - fst (pts ! (j - 1))\<close> by simp
    qed
  qed
  have own: "filter ?P (?h i) = ?h i"
  proof (cases "fst (pts ! i) - fst (pts ! (i - 1)) > 8")
    case False
    then show ?thesis by simp
  next
    case True
    then show ?thesis using midpoint_between[OF True] by simp
  qed
  have "filter ?P (interpolated_points pts) = concat (map (\<lambda>j. filter ?P (?h j)) [1..<length pts])"
    by (simp add: interpolated_points_def filter_concat comp_def)
  also have "\<dots> = filter ?P (?h i)"
    by (rule concat_single) (use others assms in auto)
  finally have interp: "filter ?P (interpolated_points pts) = ?h i" using own by simp
  have "filter ?P (add_contour_points filtered_points) = sort_key fst (filter ?P (pts @ interpolated_points pts))"
    unfolding add_contour_points_def Let_def assms(1)[symmetric] by (rule filter_sort)
  also have "\<dots> = sort_key fst (?h i)" using none interp by simp
  also have "\<dots> = ?h i" by simp
  finally have first: "filter ?P (add_contour_points filtered_points) =
      (if fst (pts ! i) - fst (pts ! (i - 1)) > 8
       then [((fst (pts ! (i - 1)) + fst (pts ! i)) / 2,
              py_int (real_of_int (snd (pts ! (i - 1)) + snd (pts ! i)) / 2))]
       else [])"
    unfolding midpoint_value .
  have len: "length (add_contour_points filtered_points)
      = length filtered_points
        + length (filter (\<lambda>j. fst (pts ! j) - fst (pts ! (j - 1)) > 8) [1..<length pts])"
    unfolding add_contour_points_def Let_def assms(1)[symmetric] interpolated_points_def
    by (simp add: length_concat_if assms(1))
  show ?thesis
    using first len py_int_close py_int_half_exact by blast
qed

theorem one_midpoint_per_wide_gap_witness:
  "(1::nat) \<le> 1 \<and> 1 < length (sort_key fst forty_beats_apart)
   \<and> fst (sort_key fst forty_beats_apart ! 1) - fst (sort_key fst forty_beats_apart ! (1 - 1)) > 8
   \<and> filter (\<lambda>q. 0 < fst q \<and> fst q < 40) (add_contour_points forty_beats_apart) = [(20, 90)]"
  using one_midpoint_per_wide_gap[of "sort_key fst forty_beats_apart" forty_beats_apart 1]
  by (simp add: forty_sorted forty_result) (simp add: forty_beats_apart_def)

section \<open>Only the adjusted fields are written\<close>

lemma unadjusted_update:
  "unadjusted (n\<lparr> adjusted_start_time := a \<rparr>) = unadjusted n"
  "unadjusted (n\<lparr> adjusted_duration := b \<rparr>) = unadjusted n"
  "unadjusted (n\<lparr> adjusted_velocity := v \<rparr>) = unadjusted n"
  by (simp_all add: unadjusted_def)

lemma originals_unadjusted: "originals (unadjusted n) = originals n"
  by (simp add: unadjusted_def originals_def)

lemma update_note_unadjusted:
  assumes "\<And>n. unadjusted (f n) = unadjusted n"
  shows "map unadjusted (update_note ns i f) = map unadjusted ns"
proof (cases "i < length ns")
  case True
  have "map unadjusted (ns[i := f (ns ! i)]) = (map unadjusted ns)[i := unadjusted (ns ! i)]"
    by (simp add: map_update assms)
  also have "\<dots> = map unadjusted ns" using True by (simp add: list_update_same_conv)
  finally show ?thesis using True by (simp add: update_note_def)
next
  case False
  then show ?thesis by (simp add: update_note_def)
qed

lemmas frame_simps = update_note_unadjusted unadjusted_update Let_def

lemma PhraseStartRule_frame: "map unadjusted (fst (PhraseStartRule_apply r ns i c)) = map unadjusted ns"
  by (simp add: PhraseStartRule_apply_def frame_simps)

lemma PhraseEndRule_frame: "map unadjusted (fst (PhraseEndRule_apply r ns i c)) = map unadjusted ns"
  by (simp add: PhraseEndRule_apply_def frame_simps)

lemma PreLeapRule_frame: "map unadjusted (fst (PreLeapRule_apply r ns i c)) = map unadjusted ns"
  by (simp add: PreLeapRule_apply_def frame_simps)

lemma LocalPeakRule_frame: "map unadjusted (fst (LocalPeakRule_apply r ns i c)) = map unadjusted ns"
  by (simp add: LocalPeakRule_apply_def frame_simps split: option.splits)

lemma DownbeatRule_frame: "map unadjusted (fst (DownbeatRule_apply r ns i c)) = map unadjusted ns"
  by (simp add: DownbeatRule_apply_def frame_simps)

lemma ShortNoteRule_frame: "map unadjusted (fst (ShortNoteRule_apply r ns i c)) = map unadjusted ns"
  by (simp add: ShortNoteRule_apply_def frame_simps)

lemma LongNoteRule_frame: "map unadjusted (fst (LongNoteRule_apply r ns i c)) = map unadjusted ns"
  by (simp add: LongNoteRule_apply_def frame_simps)

lemma AccelerandoRule_frame: "map unadjusted (fst (AccelerandoRule_apply r ns i c)) = map unadjusted ns"
  by (simp add: AccelerandoRule_apply_def frame_simps split: option.splits)

lemma SequenceAccelerationRule_frame:
  "map unadjusted (fst (snd (SequenceAccelerationRule_apply r ns i c))) = map unadjusted ns"
  by (simp add: SequenceAccelerationRule_apply_def frame_simps)

lemma DirectionalRule_frame: "map unadjusted (fst (DirectionalRule_apply r ns i c)) = map unadjusted ns"
  by (simp add: DirectionalRule_apply_def frame_simps)

lemma BassDownbeatRule_frame: "map unadjusted (fst (BassDownbeatRule_apply r ns i c)) = map unadjusted ns"
  by (simp add: BassDownbeatRule_apply_def frame_simps)

lemma BassShortNoteRule_frame: "map unadjusted (fst (BassShortNoteRule_apply r ns i c)) = map unadjusted ns"
  by (simp add: BassShortNoteRule_apply_def frame_simps)

lemma BassRepeatedNotesRule_frame:
  "map unadjusted (fst (snd (BassRepeatedNotesRule_apply r ns i c rng pos))) = map unadjusted ns"
  by (simp add: BassRepeatedNotesRule_apply_def frame_simps split: option.splits)

lemma BassPhraseEndRule_frame: "map unadjusted (fst (BassPhraseEndRule_apply r ns i c)) = map unadjusted ns"
  by (simp add: BassPhraseEndRule_apply_def frame_simps)

lemma InnerVoiceBaseVelocityRule_frame:
  "map unadjusted (fst (InnerVoiceBaseVelocityRule_apply r ns i c)) = map unadjusted ns"
  by (simp add: InnerVoiceBaseVelocityRule_apply_def frame_simps)

lemma InnerContourRule_frame: "map unadjusted (fst (InnerContourRule_apply r ns i c)) = map unadjusted ns"
  by (simp add: InnerContourRule_apply_def frame_simps split: option.splits)

lemma InnerConsonantRule_frame: "map unadjusted (fst (InnerConsonantRule_apply r ns i c)) = map unadjusted ns"
  by (simp add: InnerConsonantRule_apply_def frame_simps split: option.splits)

lemma InnerFlowTimingRule_frame:
  "map unadjusted (fst (InnerFlowTimingRule_apply r ns i c rng pos)) = map unadjusted ns"
  by (simp add: InnerFlowTimingRule_apply_def frame_simps)

lemma InnerShortNoteRule_frame: "map unadjusted (fst (InnerShortNoteRule_apply r ns i c)) = map unadjusted ns"
  by (simp add: InnerShortNoteRule_apply_def frame_simps)

lemmas rule_frames =
  PhraseStartRule_frame PhraseEndRule_frame PreLeapRule_frame LocalPeakRule_frame DownbeatRule_frame
  ShortNoteRule_frame LongNoteRule_frame AccelerandoRule_frame SequenceAccelerationRule_frame
  DirectionalRule_frame BassDownbeatRule_frame BassShortNoteRule_frame BassRepeatedNotesRule_frame
  BassPhraseEndRule_frame InnerVoiceBaseVelocityRule_frame InnerContourRule_frame
  InnerConsonantRule_frame InnerFlowTimingRule_frame InnerShortNoteRule_frame

lemma rule_apply_frame:
  "map unadjusted (fst (snd (rule_apply r ns i c rng pos))) = map unadjusted ns"
proof (cases "rule_class r")
  case SequenceAccelerationRule
  then show ?thesis
    using SequenceAccelerationRule_frame[of r ns i c]
    by (auto simp: rule_apply_def split: prod.splits)
next
  case InnerFlowTimingRule
  then show ?thesis
    using InnerFlowTimingRule_frame[of r ns i c rng pos]
    by (auto simp: rule_apply_def split: prod.splits)
qed (simp_all add: rule_apply_def stateless_def rule_frames)


lemma run_rules_frame:
  "map unadjusted (fst (snd (run_rules voice_type c rng i rs ns pos st))) = map unadjusted ns"
proof (induction rs arbitrary: ns pos st)
  case Nil
  show ?case by simp
next
  case (Cons r rs)
  show ?case
  proof (cases "enabled r")
    case False
    then show ?thesis using Cons.IH[of ns pos st] by (auto split: prod.splits)
  next
    case True
    obtain r' ns' pos' out where a: "rule_apply r ns i c rng pos = (r', ns', pos', out)"
      by (cases "rule_apply r ns i c rng pos")
    have f: "map unadjusted ns' = map unadjusted ns" using rule_apply_frame[of r ns i c rng pos] a by simp
    let ?st' = "if out = Applied then count_application voice_type (name r') st else st"
    obtain rs2 ns2 pos2 st2 k2 where b: "run_rules voice_type c rng i rs ns' pos' ?st' = (rs2, ns2, pos2, st2, k2)"
      by (cases "run_rules voice_type c rng i rs ns' pos' ?st'")
    have "map unadjusted ns2 = map unadjusted ns'" using Cons.IH[of ns' pos' ?st'] b by simp
    then show ?thesis using True a b f by simp
  qed
qed

lemma interpret_note_frame:
  "map unadjusted (fst (snd (snd (interpret_note I voice_type rng i s)))) = map unadjusted (fst (snd (snd s)))"
proof -
  obtain cache rs ns pos st adj where s: "s = (cache, rs, ns, pos, st, adj)" by (cases s)
  show ?thesis
    unfolding s interpret_note_def Let_def
    using run_rules_frame by (simp split: prod.splits) (metis fst_conv snd_conv)
qed

lemma interpret_notes_frame:
  "map unadjusted (fst (snd (snd (fold (interpret_note I voice_type rng) js s)))) = map unadjusted (fst (snd (snd s)))"
  by (induction js arbitrary: s) (simp_all add: interpret_note_frame)

lemma interpret_voice_frame:
  "map unadjusted (voice_notes (fst (snd (interpret_voice I v rng pos)))) = map unadjusted (voice_notes v)"
proof -
  let ?vt = "voice_type_of (role v)"
  let ?rs = "case map_of (rule_sets (rule_manager I)) ?vt of Some rs0 \<Rightarrow> rs0 | None \<Rightarrow> []"
  let ?s0 = "([], ?rs, voice_notes v, pos, stats (rule_manager I), 0)"
  obtain cache rs' ns' pos' st' adj where f: "fold (interpret_note I ?vt rng) [0..<length (voice_notes v)] ?s0
      = (cache, rs', ns', pos', st', adj)"
    by (cases "fold (interpret_note I ?vt rng) [0..<length (voice_notes v)] ?s0")
  have "map unadjusted ns' = map unadjusted (voice_notes v)"
    using interpret_notes_frame[of I ?vt rng "[0..<length (voice_notes v)]" ?s0] f by simp
  then show ?thesis using f by (simp add: interpret_voice_def Let_def)
qed

lemma interpret_voices_frame:
  "map (\<lambda>w. map unadjusted (voice_notes w)) (fst (interpret_voices rng vs I pos)) = map (\<lambda>w. map unadjusted (voice_notes w)) vs"
proof (induction vs arbitrary: I pos)
  case Nil
  show ?case by simp
next
  case (Cons v vs)
  obtain I' v' pos' where a: "interpret_voice I v rng pos = (I', v', pos')" by (cases "interpret_voice I v rng pos")
  have f: "map unadjusted (voice_notes v') = map unadjusted (voice_notes v)"
    using interpret_voice_frame[of I v rng pos] a by simp
  obtain vs2 I2 pos2 where b: "interpret_voices rng vs I' pos' = (vs2, I2, pos2)"
    by (cases "interpret_voices rng vs I' pos'")
  have "map (\<lambda>w. map unadjusted (voice_notes w)) vs2 = map (\<lambda>w. map unadjusted (voice_notes w)) vs"
    using Cons.IH[of I' pos'] b by simp
  then show ?case using a b f by simp
qed

lemma apply_all_rules_frame:
  "map (\<lambda>w. map unadjusted (voice_notes w)) (voices (apply_all_rules fl rnd rng I))
     = map (\<lambda>w. map unadjusted (voice_notes w)) (voices I)"
proof -
  let ?I1 = "I\<lparr> orchestral_conductor :=
     create_agogic_map fl rnd (analyze_structure (voices I) (orchestral_conductor I)) \<rparr>"
  obtain vs' I2 pos where a: "interpret_voices rng (voices ?I1) ?I1 0 = (vs', I2, pos)"
    by (cases "interpret_voices rng (voices ?I1) ?I1 0")
  have "map (\<lambda>w. map unadjusted (voice_notes w)) vs' = map (\<lambda>w. map unadjusted (voice_notes w)) (voices ?I1)"
    using interpret_voices_frame[of rng "voices ?I1" ?I1 0] a by simp
  then show ?thesis using a by (simp add: apply_all_rules_def Let_def)
qed

lemma validate_note_frame: "unadjusted (fst (validate_note tpb n)) = unadjusted n"
  by (simp add: validate_note_def Let_def unadjusted_update)

lemma validate_notes_frame: "map unadjusted (fst (validate_notes tpb ns)) = map unadjusted ns"
  by (induction ns) (simp_all add: validate_note_frame split: prod.splits, metis fst_conv validate_note_frame)

lemma validate_voices_frame:
  "map (\<lambda>w. map unadjusted (voice_notes w)) (fst (validate_voices tpb vs)) = map (\<lambda>w. map unadjusted (voice_notes w)) vs"
  by (induction vs) (simp_all split: prod.splits, metis fst_conv validate_notes_frame)


lemma interpret_run_frame:
  "map (\<lambda>w. map unadjusted (voice_notes w)) (voices (interpret_run fl rnd rng I))
     = map (\<lambda>w. map unadjusted (voice_notes w)) (voices I)"
  unfolding interpret_run_def voices_validate
  by (simp add: validate_voices_frame apply_all_rules_frame)

lemma map_eq_nth:
  assumes "map f xs = map f ys" and "i < length ys"
  shows "f (xs ! i) = f (ys ! i)"
proof -
  have "length xs = length ys" using assms(1) by (rule map_eq_imp_length_eq)
  then have "map f xs ! i = f (xs ! i)" "map f ys ! i = f (ys ! i)" using assms(2) by simp_all
  then show ?thesis using assms(1) by simp
qed

text \<open>
  Claim C8. A complete run (conductor analysis, rule application over all voices, then
  the validation pass) keeps the voices and their notes in place and leaves the original
  fields of every note as they were: pitch, velocity, original start time, original
  duration, track and channel. The same holds after the rule pass alone. Indeed a note
  before and after the run agrees on every field except the three adjusted ones.
\<close>

theorem original_fields_never_mutated:
  fixes I :: interpreter
  shows "length (voices (interpret_run fl rnd rng I)) = length (voices I)
       \<and> (\<forall>j < length (voices I).
             length (voice_notes (voices (interpret_run fl rnd rng I) ! j))
               = length (voice_notes (voices I ! j))
             \<and> (\<forall>i < length (voice_notes (voices I ! j)).
                   originals (voice_notes (voices (interpret_run fl rnd rng I) ! j) ! i)
                     = originals (voice_notes (voices I ! j) ! i)
                   \<and> originals (voice_notes (voices (apply_all_rules fl rnd rng I) ! j) ! i)
                     = originals (voice_notes (voices I ! j) ! i)
                   \<and> unadjusted (voice_notes (voices (interpret_run fl rnd rng I) ! j) ! i)
                     = unadjusted (voice_notes (voices I ! j) ! i)))"
proof (intro conjI allI impI)
  show "length (voices (interpret_run fl rnd rng I)) = length (voices I)"
    using interpret_run_frame[of fl rnd rng I] by (rule map_eq_imp_length_eq)
next
  fix j assume j: "j < length (voices I)"
  have vj: "map unadjusted (voice_notes (voices (interpret_run fl rnd rng I) ! j))
      = map unadjusted (voice_notes (voices I ! j))"
    using map_eq_nth[OF interpret_run_frame[of fl rnd rng I] j] .
  have wj: "map unadjusted (voice_notes (voices (apply_all_rules fl rnd rng I) ! j))
      = map unadjusted (voice_notes (voices I ! j))"
    using map_eq_nth[OF apply_all_rules_frame[of fl rnd rng I] j] .
  show "length (voice_notes (voices (interpret_run fl rnd rng I) ! j)) = length (voice_notes (voices I ! j))"
    using vj by (rule map_eq_imp_length_eq)
  fix i assume i: "i < length (voice_notes (voices I ! j))"
  show u: "unadjusted (voice_notes (voices (interpret_run fl rnd rng I) ! j) ! i)
      = unadjusted (voice_notes (voices I ! j) ! i)"
    using map_eq_nth[OF vj i] .
  then show "originals (voice_notes (voices (interpret_run fl rnd rng I) ! j) ! i)
      = originals (voice_notes (voices I ! j) ! i)"
    using originals_unadjusted by metis
  have "unadjusted (voice_notes (voices (apply_all_rules fl rnd rng I) ! j) ! i)
      = unadjusted (voice_notes (voices I ! j) ! i)"
    using map_eq_nth[OF wj i] .
  then show "originals (voice_notes (voices (apply_all_rules fl rnd rng I) ! j) ! i)
      = originals (voice_notes (voices I ! j) ! i)"
    using originals_unadjusted by metis
qed

theorem original_fields_never_mutated_witness:
  "(0::nat) < length (voices example_interpreter)
   \<and> (0::nat) < length (voice_notes (voices example_interpreter ! 0))
   \<and> originals (voice_notes (voices (interpret_run no_faults (0, 0, 0) (\<lambda>k. 0) example_interpreter) ! 0) ! 0)
       = (60, 80, 0, 24, 0, 0)"
  using original_fields_never_mutated[of no_faults "(0, 0, 0)" "\<lambda>k. 0" example_interpreter]
  by (simp add: example_interpreter_def example_voice_def short_then_long_def originals_def NoteProperties_def)

end
